theory Spec2Isabelle
  imports Complex_Main
begin

section \<open>The CLARO energy simulator and its feature builder\<close>

text \<open>
  A shallow embedding of \<^verbatim>\<open>src/claro/simulate.py\<close> and of the comfort-pressure
  function of \<^verbatim>\<open>src/claro/build_features.py\<close>.

  Conventions of the embedding:
  \<^item> a Python \<^verbatim>\<open>float\<close> is a \<^typ>\<open>real\<close>: arithmetic is exact, and there is no
    NaN and no infinity. \<^verbatim>\<open>math.sin\<close>, \<^verbatim>\<open>math.exp\<close> and \<^verbatim>\<open>math.pi\<close> are
    \<^term>\<open>sin\<close>, \<^term>\<open>exp\<close> and \<^term>\<open>pi\<close>;
  \<^item> a Python \<^verbatim>\<open>int\<close> is an \<^typ>\<open>int\<close>;
  \<^item> a \<^verbatim>\<open>datetime\<close> is naive (it carries no time zone) and is the number of
    microseconds since the start of day 0 of the proleptic Gregorian calendar
    (0001-01-01 is day 1, as in \<^verbatim>\<open>datetime.toordinal\<close>); its calendar fields are
    computed from that number the way the standard library does, and the values that
    Python can represent are those that \<open>valid_datetime\<close> accepts;
  \<^item> a raised exception is the left summand of a sum type;
  \<^item> \<^verbatim>\<open>random.Random\<close> is a position in the sequence of standard normal variates
    that its seed determines; that sequence is a parameter of the model.
\<close>

subsection \<open>Exceptions\<close>

datatype error = ZeroDivisionError | OverflowError | FileNotFoundError | ValueError

subsection \<open>The standard library's calendar\<close>

datatype datetime = DT (us_of: int)

definition US_PER_DAY :: int where
  "US_PER_DAY = 86400000000"

definition MAXORDINAL :: int where
  "MAXORDINAL = 3652059"

definition toordinal :: "datetime \<Rightarrow> int" where
  "toordinal ts = us_of ts div US_PER_DAY"

definition valid_datetime :: "datetime \<Rightarrow> bool" where
  "valid_datetime ts = (0 < toordinal ts \<and> toordinal ts \<le> MAXORDINAL)"

definition hour :: "datetime \<Rightarrow> int" where
  "hour ts = (us_of ts div 3600000000) mod 24"

definition minute :: "datetime \<Rightarrow> int" where
  "minute ts = (us_of ts div 60000000) mod 60"

definition second :: "datetime \<Rightarrow> int" where
  "second ts = (us_of ts div 1000000) mod 60"

definition microsecond :: "datetime \<Rightarrow> int" where
  "microsecond ts = us_of ts mod 1000000"

definition weekday :: "datetime \<Rightarrow> int" where
  "weekday ts = (toordinal ts + 6) mod 7"

definition is_leap :: "int \<Rightarrow> bool" where
  "is_leap y = (y mod 4 = 0 \<and> (y mod 100 \<noteq> 0 \<or> y mod 400 = 0))"

definition days_before_year :: "int \<Rightarrow> int" where
  "days_before_year y = (y - 1) * 365 + (y - 1) div 4 - (y - 1) div 100 + (y - 1) div 400"

definition DAYS_IN_MONTH :: "int list" where
  "DAYS_IN_MONTH = [-1, 31, 28, 31, 30, 31, 30, 31, 31, 30, 31, 30, 31]"

definition DAYS_BEFORE_MONTH :: "int list" where
  "DAYS_BEFORE_MONTH = [-1, 0, 31, 59, 90, 120, 151, 181, 212, 243, 273, 304, 334]"

definition days_before_month :: "int \<Rightarrow> int \<Rightarrow> int" where
  "days_before_month y m =
     DAYS_BEFORE_MONTH ! nat m + (if m > 2 \<and> is_leap y then 1 else 0)"

definition ymd2ord :: "int \<Rightarrow> int \<Rightarrow> int \<Rightarrow> int" where
  "ymd2ord y m d = days_before_year y + days_before_month y m + d"

text \<open>
  \<^verbatim>\<open>_ord2ymd\<close> of the standard library: the year, month and day of an ordinal.
  The month index stays within 1..12 for every ordinal, so the table reads are in range.
\<close>

definition ord2ymd :: "int \<Rightarrow> int \<times> int \<times> int" where
  "ord2ymd n0 =
     (let n = n0 - 1;
          n400 = n div 146097; n = n mod 146097;
          year = n400 * 400 + 1;
          n100 = n div 36524; n = n mod 36524;
          n4 = n div 1461; n = n mod 1461;
          n1 = n div 365; n = n mod 365;
          year = year + n100 * 100 + n4 * 4 + n1
      in if n1 = 4 \<or> n100 = 4 then (year - 1, 12, 31)
         else
           let leapyear = (n1 = 3 \<and> (n4 \<noteq> 24 \<or> n100 = 3));
               month = (n + 50) div 32;
               preceding = DAYS_BEFORE_MONTH ! nat month + (if month > 2 \<and> leapyear then 1 else 0)
           in if preceding > n
              then let month = month - 1;
                       preceding = preceding -
                         (DAYS_IN_MONTH ! nat month + (if month = 2 \<and> leapyear then 1 else 0))
                   in (year, month, n - preceding + 1)
              else (year, month, n - preceding + 1))"

definition year :: "datetime \<Rightarrow> int" where
  "year ts = fst (ord2ymd (toordinal ts))"

definition month :: "datetime \<Rightarrow> int" where
  "month ts = fst (snd (ord2ymd (toordinal ts)))"

definition day :: "datetime \<Rightarrow> int" where
  "day ts = snd (snd (ord2ymd (toordinal ts)))"

text \<open>\<^verbatim>\<open>ts.timetuple().tm_yday\<close>: the day of the year, 1 on the first of January.\<close>

definition tm_yday :: "datetime \<Rightarrow> int" where
  "tm_yday ts = days_before_month (year ts) (month ts) + day ts"

text \<open>
  The constructor \<^verbatim>\<open>datetime(y, m, d, hh, mm, ss)\<close>, for field values that are in
  range (the only call of the source is \<^verbatim>\<open>datetime(2025, 1, 1, 0, 0, 0)\<close>).
\<close>

definition mk_datetime :: "int \<Rightarrow> int \<Rightarrow> int \<Rightarrow> int \<Rightarrow> int \<Rightarrow> int \<Rightarrow> datetime" where
  "mk_datetime y m d hh mm ss =
     DT (ymd2ord y m d * US_PER_DAY + ((hh * 60 + mm) * 60 + ss) * 1000000)"

text \<open>
  \<^verbatim>\<open>timedelta(minutes=m)\<close> and \<^verbatim>\<open>timedelta * int\<close>, as a number of microseconds.
  A \<^verbatim>\<open>timedelta\<close> holds between -999999999 and 999999999 whole days; outside that
  range its construction raises \<^verbatim>\<open>OverflowError\<close>.
\<close>

definition timedelta_ok :: "int \<Rightarrow> bool" where
  "timedelta_ok us = (- 999999999 \<le> us div US_PER_DAY \<and> us div US_PER_DAY \<le> 999999999)"

definition timedelta_minutes :: "int \<Rightarrow> error + int" where
  "timedelta_minutes m =
     (if timedelta_ok (m * 60000000) then Inr (m * 60000000) else Inl OverflowError)"

definition timedelta_mul :: "int \<Rightarrow> int \<Rightarrow> error + int" where
  "timedelta_mul td i = (if timedelta_ok (td * i) then Inr (td * i) else Inl OverflowError)"

text \<open>\<^verbatim>\<open>datetime + timedelta\<close>: \<^verbatim>\<open>OverflowError\<close> outside the years 1 to 9999.\<close>

definition datetime_add :: "datetime \<Rightarrow> int \<Rightarrow> error + datetime" where
  "datetime_add ts td =
     (let r = DT (us_of ts + td)
      in if valid_datetime r then Inr r else Inl OverflowError)"

text \<open>
  \<^verbatim>\<open>ts.isoformat()\<close> of a naive datetime: \<^verbatim>\<open>YYYY-MM-DDTHH:MM:SS\<close>, followed by
  \<^verbatim>\<open>.ffffff\<close> when the microseconds are not zero.
\<close>

definition digit :: "int \<Rightarrow> char" where
  "digit n = ''0123456789'' ! nat (n mod 10)"

definition dec2 :: "int \<Rightarrow> string" where
  "dec2 n = [digit (n div 10), digit n]"

definition dec4 :: "int \<Rightarrow> string" where
  "dec4 n = [digit (n div 1000), digit (n div 100), digit (n div 10), digit n]"

definition dec6 :: "int \<Rightarrow> string" where
  "dec6 n = [digit (n div 100000), digit (n div 10000), digit (n div 1000),
             digit (n div 100), digit (n div 10), digit n]"

definition isoformat :: "datetime \<Rightarrow> string" where
  "isoformat ts =
     dec4 (year ts) @ ''-'' @ dec2 (month ts) @ ''-'' @ dec2 (day ts) @ ''T'' @
     dec2 (hour ts) @ '':'' @ dec2 (minute ts) @ '':'' @ dec2 (second ts) @
     (if microsecond ts \<noteq> 0 then ''.'' @ dec6 (microsecond ts) else [])"

subsection \<open>The random source\<close>

text \<open>
  \<^verbatim>\<open>random.Random(seed)\<close> is deterministic: the seed fixes the sequence of standard
  normal variates that successive calls of \<^verbatim>\<open>normalvariate\<close> are built from
  (\<^verbatim>\<open>normalvariate(mu, sigma)\<close> returns \<^verbatim>\<open>mu + z * sigma\<close>, and neither \<open>z\<close> nor the
  generator's next state depends on \<open>mu\<close> or \<open>sigma\<close>). The model takes that sequence,
  for every seed, as the parameter \<open>gen\<close>; a generator is the sequence and the number of
  variates already drawn from it.
\<close>

record rng =
  stream :: "nat \<Rightarrow> real"
  pos :: nat

definition Random :: "(int \<Rightarrow> nat \<Rightarrow> real) \<Rightarrow> int \<Rightarrow> rng" where
  "Random gen s = \<lparr>stream = gen s, pos = 0\<rparr>"

definition normalvariate :: "rng \<Rightarrow> real \<Rightarrow> real \<Rightarrow> real \<times> rng" where
  "normalvariate g mu sigma = (mu + stream g (pos g) * sigma, g\<lparr>pos := pos g + 1\<rparr>)"

subsection \<open>Configuration\<close>

record SimConfig =
  seed :: int
  freq_minutes :: int
  n_days :: int
  building_factor_x4 :: real
  base_kwh_when_closed :: real
  base_kwh_when_open :: real
  occ_to_activation :: real
  temp_to_activation :: real
  regime_to_activation :: real
  activation_to_kwh :: real
  direct_temp_to_kwh :: real
  inertia_phi :: real
  noise_sigma :: real
  academic_intensity :: real

text \<open>The field defaults of the dataclass.\<close>

definition SimConfig_default :: SimConfig where
  "SimConfig_default =
     \<lparr>seed = 123, freq_minutes = 60, n_days = 60,
      building_factor_x4 = 1.10,
      base_kwh_when_closed = 8.0, base_kwh_when_open = 18.0,
      occ_to_activation = 0.020, temp_to_activation = 0.060, regime_to_activation = 0.35,
      activation_to_kwh = 35.0, direct_temp_to_kwh = 0.50,
      inertia_phi = 0.75, noise_sigma = 2.5, academic_intensity = 1.0\<rparr>"

subsection \<open>Signal generators\<close>

definition clamp :: "real \<Rightarrow> real \<Rightarrow> real \<Rightarrow> real" where
  "clamp x lo hi = max lo (min hi x)"

text \<open>
  \<^verbatim>\<open>[start + timedelta(minutes=step_minutes) * i for i in range(n_steps)]\<close>:
  the comprehension stops at the first element whose evaluation raises.
\<close>

fun collect :: "(error + 'a) list \<Rightarrow> error + 'a list" where
  "collect [] = Inr []"
| "collect (x # xs) =
     (case x of
        Inl e \<Rightarrow> Inl e
      | Inr v \<Rightarrow> (case collect xs of Inl e \<Rightarrow> Inl e | Inr vs \<Rightarrow> Inr (v # vs)))"

definition py_range :: "int \<Rightarrow> int list" where
  "py_range n = map int [0..<nat n]"

definition time_point :: "datetime \<Rightarrow> int \<Rightarrow> int \<Rightarrow> error + datetime" where
  "time_point start step_minutes i =
     (case timedelta_minutes step_minutes of
        Inl e \<Rightarrow> Inl e
      | Inr td \<Rightarrow> (case timedelta_mul td i of
                    Inl e \<Rightarrow> Inl e
                  | Inr d \<Rightarrow> datetime_add start d))"

definition generate_time_index :: "datetime \<Rightarrow> int \<Rightarrow> int \<Rightarrow> error + datetime list" where
  "generate_time_index start n_steps step_minutes =
     collect (map (time_point start step_minutes) (py_range n_steps))"

text \<open>\<^verbatim>\<open>hour = ts.hour + ts.minute / 60.0\<close>, as three of the generators compute it.\<close>

definition frac_hour :: "datetime \<Rightarrow> real" where
  "frac_hour ts = of_int (hour ts) + of_int (minute ts) / 60"

definition simulate_outdoor_temp :: "datetime \<Rightarrow> real \<Rightarrow> real \<Rightarrow> real" where
  "simulate_outdoor_temp ts seasonal_amp daily_amp =
     (let day_of_year = tm_yday ts;
          hour = frac_hour ts;
          seasonal = 8.0 + seasonal_amp * sin (2 * pi * (of_int day_of_year / 365.0));
          daily = daily_amp * sin (2 * pi * ((hour - 5.0) / 24.0))
      in seasonal + daily)"

definition simulate_open_regime :: "datetime \<Rightarrow> int" where
  "simulate_open_regime ts =
     (let weekday = weekday ts;
          hour = frac_hour ts
      in if weekday \<le> 4
         then (if 8.0 \<le> hour \<and> hour < 22.0 then 1 else 0)
         else (if 10.0 \<le> hour \<and> hour < 18.0 then 1 else 0))"

definition simulate_occupancy :: "datetime \<Rightarrow> int \<Rightarrow> real \<Rightarrow> rng \<Rightarrow> real \<times> rng" where
  "simulate_occupancy ts open_regime intensity g =
     (if open_regime = 0 then (0.0, g)
      else
        let hour = frac_hour ts;
            weekday = weekday ts;
            daily_profile =
              0.6 * exp (- ((hour - 13.0) ^ 2) / (2 * 3.5 ^ 2)) +
              0.4 * exp (- ((hour - 18.0) ^ 2) / (2 * 2.8 ^ 2));
            weekday_multiplier = (if weekday \<le> 4 then 1.0 else 0.65);
            base_capacity = 180.0 * intensity;
            (noise, g') = normalvariate g 0.0 8.0;
            occ = base_capacity * daily_profile * weekday_multiplier + noise
        in (clamp occ 0.0 220.0, g'))"

definition temp_pressure :: "real \<Rightarrow> real \<Rightarrow> real \<Rightarrow> real" where
  "temp_pressure temp_out comfort_low comfort_high =
     (if temp_out < comfort_low then comfort_low - temp_out
      else if temp_out > comfort_high then temp_out - comfort_high
      else 0.0)"

subsection \<open>The recurrence\<close>

text \<open>
  \<^verbatim>\<open>round(x, ndigits)\<close> on exact numbers: the nearest multiple of \<open>10 ^ -ndigits\<close>,
  a tie going to the even multiple.
\<close>

definition round_half_even :: "real \<Rightarrow> int" where
  "round_half_even r =
     (let f = \<lfloor>r\<rfloor>; d = r - of_int f
      in if d < 1 / 2 then f
         else if 1 / 2 < d then f + 1
         else if even f then f else f + 1)"

definition py_round :: "real \<Rightarrow> nat \<Rightarrow> real" where
  "py_round x ndigits = of_int (round_half_even (x * 10 ^ ndigits)) / 10 ^ ndigits"

text \<open>
  A record of the output is a \<^verbatim>\<open>dict\<close> from field name to value; the keys keep their
  insertion order, so it is an association list. The timestamp is a string, every other
  value a float.
\<close>

datatype pyval = Str string | Float real

type_synonym row = "(string \<times> pyval) list"

text \<open>The variables that the loop of \<^verbatim>\<open>simulate\<close> updates.\<close>

record sim_state =
  rows :: "row list"
  y_prev :: real
  rng :: rng

text \<open>The body of the loop \<^verbatim>\<open>for ts in times\<close> (the list \<^verbatim>\<open>times\<close> is \<open>time_list\<close> below).\<close>

definition sim_step :: "SimConfig \<Rightarrow> sim_state \<Rightarrow> datetime \<Rightarrow> sim_state" where
  "sim_step cfg st ts =
     (let x3_open = simulate_open_regime ts;
          x2_temp_out = simulate_outdoor_temp ts 9.0 3.5;
          x2_pressure = temp_pressure x2_temp_out 20.0 23.0;
          (x1_occ, rng1) = simulate_occupancy ts x3_open (academic_intensity cfg) (rng st);
          x5_availability = (0.7 + 0.3 * of_int x3_open) * building_factor_x4 cfg;
          m1_activation =
            (regime_to_activation cfg * of_int x3_open +
             occ_to_activation cfg * x1_occ +
             temp_to_activation cfg * x2_pressure) * x5_availability;
          m1_activation = clamp m1_activation 0.0 2.0;
          baseline = (if x3_open = 1 then base_kwh_when_open cfg else base_kwh_when_closed cfg);
          baseline = baseline * building_factor_x4 cfg;
          y_det = baseline + activation_to_kwh cfg * m1_activation +
                  direct_temp_to_kwh cfg * x2_pressure;
          (noise, rng2) = normalvariate rng1 0.0 (noise_sigma cfg);
          y_kwh = inertia_phi cfg * y_prev st + (1.0 - inertia_phi cfg) * y_det + noise;
          y_kwh = max 0.0 y_kwh
      in \<lparr>rows = rows st @
             [[(''timestamp'', Str (isoformat ts)),
               (''X1_occupancy'', Float (py_round x1_occ 3)),
               (''X2_temp_out'', Float (py_round x2_temp_out 3)),
               (''X2_temp_pressure'', Float (py_round x2_pressure 3)),
               (''X3_open'', Float (of_int x3_open)),
               (''X4_building_factor'', Float (py_round (building_factor_x4 cfg) 3)),
               (''X5_availability'', Float (py_round x5_availability 3)),
               (''M1_activation'', Float (py_round m1_activation 4)),
               (''Y_kwh'', Float (py_round y_kwh 4))]],
          y_prev = y_kwh,
          rng = rng2\<rparr>)"

text \<open>
  \<^verbatim>\<open>int((24 * 60) / freq_minutes)\<close>: the true quotient of two integers, truncated towards
  zero. The quotient of 1440 by a non-zero integer is never so close to an integer that
  the rounding of the float division could change its truncation.
\<close>

definition int_truediv :: "int \<Rightarrow> int \<Rightarrow> int" where
  "int_truediv a b = sgn a * sgn b * (\<bar>a\<bar> div \<bar>b\<bar>)"

text \<open>
  The state at the end of the loop of \<^verbatim>\<open>simulate\<close>, or the exception that the run
  raises; \<^verbatim>\<open>simulate\<close> returns the rows of that state.
\<close>

definition simulate_run ::
  "(int \<Rightarrow> nat \<Rightarrow> real) \<Rightarrow> SimConfig \<Rightarrow> datetime option \<Rightarrow> error + sim_state" where
  "simulate_run gen cfg start =
     (let rng0 = Random gen (seed cfg);
          start = (case start of None \<Rightarrow> mk_datetime 2025 1 1 0 0 0 | Some s \<Rightarrow> s)
      in if freq_minutes cfg = 0 then Inl ZeroDivisionError
         else
           let steps_per_day = int_truediv (24 * 60) (freq_minutes cfg);
               n_steps = n_days cfg * steps_per_day
           in case generate_time_index start n_steps (freq_minutes cfg) of
                Inl e \<Rightarrow> Inl e
              | Inr time_list \<Rightarrow>
                  Inr (foldl (sim_step cfg)
                         \<lparr>rows = [], y_prev = base_kwh_when_closed cfg, rng = rng0\<rparr> time_list))"

definition simulate ::
  "(int \<Rightarrow> nat \<Rightarrow> real) \<Rightarrow> SimConfig \<Rightarrow> datetime option \<Rightarrow> error + row list" where
  "simulate gen cfg start =
     (case simulate_run gen cfg start of Inl e \<Rightarrow> Inl e | Inr st \<Rightarrow> Inr (rows st))"

subsection \<open>The tabular writer\<close>

text \<open>
  The file system is the set of directories and the content of every file. The content
  of a file written through \<^verbatim>\<open>csv.DictWriter\<close> is the list of the rows handed to the
  underlying writer, each row the list of its cells (the writer's rendering of a cell as
  text is not modelled). Of the failures of \<^verbatim>\<open>os.makedirs\<close> and \<^verbatim>\<open>open\<close> only the
  one that depends on the arguments alone is modelled: \<^verbatim>\<open>os.makedirs('')\<close> raises
  \<^verbatim>\<open>FileNotFoundError\<close>. A write that raises returns the exception alone.
\<close>

record filesystem =
  dirs :: "string set"
  files :: "string \<rightharpoonup> pyval list list"

text \<open>\<^verbatim>\<open>os.path.dirname\<close> (POSIX).\<close>

definition rstrip_sep :: "string \<Rightarrow> string" where
  "rstrip_sep p = rev (dropWhile (\<lambda>c. c = CHR ''/'') (rev p))"

definition dirname :: "string \<Rightarrow> string" where
  "dirname p =
     (let head = rev (dropWhile (\<lambda>c. c \<noteq> CHR ''/'') (rev p))
      in if head \<noteq> [] \<and> \<not> list_all (\<lambda>c. c = CHR ''/'') head then rstrip_sep head
         else head)"

definition makedirs :: "string \<Rightarrow> filesystem \<Rightarrow> error + filesystem" where
  "makedirs name fs =
     (if name = [] then Inl FileNotFoundError else Inr (fs\<lparr>dirs := insert name (dirs fs)\<rparr>))"

text \<open>
  \<^verbatim>\<open>DictWriter._dict_to_list\<close>: a row with a key that is not a field name raises
  \<^verbatim>\<open>ValueError\<close>; a field name that the row lacks is written as the empty string.
\<close>

definition dict_to_list :: "string list \<Rightarrow> row \<Rightarrow> error + pyval list" where
  "dict_to_list fieldnames rowdict =
     (if filter (\<lambda>k. k \<notin> set fieldnames) (map fst rowdict) \<noteq> [] then Inl ValueError
      else Inr (map (\<lambda>key. case map_of rowdict key of Some v \<Rightarrow> v | None \<Rightarrow> Str []) fieldnames))"

definition write_csv :: "row list \<Rightarrow> string \<Rightarrow> filesystem \<Rightarrow> error + filesystem" where
  "write_csv row_list out_path fs =
     (case makedirs (dirname out_path) fs of
        Inl e \<Rightarrow> Inl e
      | Inr fs1 \<Rightarrow>
          let fieldnames = (if row_list \<noteq> [] then map fst (hd row_list) else []);
              header = map Str fieldnames
          in (case collect (map (dict_to_list fieldnames) row_list) of
                Inl e \<Rightarrow> Inl e
              | Inr body \<Rightarrow> Inr (fs1\<lparr>files := (files fs1)(out_path \<mapsto> header # body)\<rparr>)))"

subsection \<open>The comfort pressure of the feature builder\<close>







record FeatureConfig =
  freq :: string
  tz :: "string option"
  comfort_low :: real
  comfort_high :: real
  add_y_lags :: bool
  y_lags :: "int list"





subsection \<open>Notions of the specification\<close>

text \<open>The nine field names of a simulation record, in the order of the output file.\<close>

definition FIELD_NAMES :: "string list" where
  "FIELD_NAMES =
     [''timestamp'', ''X1_occupancy'', ''X2_temp_out'', ''X2_temp_pressure'', ''X3_open'',
      ''X4_building_factor'', ''X5_availability'', ''M1_activation'', ''Y_kwh'']"

text \<open>
  The occupancy and the noise that the step at \<open>ts\<close> draws when it starts in state \<open>st\<close>:
  the occupancy call comes first, the noise is drawn from the generator it leaves behind.
\<close>

definition step_occupancy :: "SimConfig \<Rightarrow> sim_state \<Rightarrow> datetime \<Rightarrow> real" where
  "step_occupancy cfg st ts =
     fst (simulate_occupancy ts (simulate_open_regime ts) (academic_intensity cfg) (rng st))"

definition step_noise :: "SimConfig \<Rightarrow> sim_state \<Rightarrow> datetime \<Rightarrow> real" where
  "step_noise cfg st ts =
     fst (normalvariate
            (snd (simulate_occupancy ts (simulate_open_regime ts) (academic_intensity cfg) (rng st)))
            0 (noise_sigma cfg))"

text \<open>
  The deterministic baseline energy target of a step, in the words of the specification
  (steps 1 and 3 to 5 of the algorithm), for a given occupancy.
\<close>

definition spec_baseline_target :: "SimConfig \<Rightarrow> datetime \<Rightarrow> real \<Rightarrow> real" where
  "spec_baseline_target cfg ts occupancy =
     (let regime = of_int (simulate_open_regime ts);
          pressure = temp_pressure (simulate_outdoor_temp ts 9 3.5) 20 23;
          availability = (0.7 + 0.3 * regime) * building_factor_x4 cfg;
          activation =
            clamp ((regime_to_activation cfg * regime + occ_to_activation cfg * occupancy +
                    temp_to_activation cfg * pressure) * availability) 0 2
      in (if simulate_open_regime ts = 1 then base_kwh_when_open cfg
          else base_kwh_when_closed cfg) * building_factor_x4 cfg +
         activation_to_kwh cfg * activation + direct_temp_to_kwh cfg * pressure)"

text \<open>The value of a numeric field of a record, when the record has that field.\<close>

definition field :: "row \<Rightarrow> string \<Rightarrow> real option" where
  "field r k = (case map_of r k of Some (Float x) \<Rightarrow> Some x | _ \<Rightarrow> None)"

text \<open>
  The time grid of the specification: \<open>n_steps\<close> points that start at the origin and
  are spaced \<open>step_minutes\<close> apart.
\<close>

definition spec_time_grid :: "datetime \<Rightarrow> int \<Rightarrow> int \<Rightarrow> datetime list" where
  "spec_time_grid start n_steps step_minutes =
     map (\<lambda>i. DT (us_of start + step_minutes * 60000000 * i)) (py_range n_steps)"

text \<open>
  What the step at \<open>ts\<close> promises of the record it emits: the nine fields in order, the
  timestamp and the regime of \<open>ts\<close>, and the bounds of the specification on occupancy,
  activation and energy.
\<close>

definition record_of_step :: "datetime \<Rightarrow> row \<Rightarrow> bool" where
  "record_of_step ts r =
     (map fst r = FIELD_NAMES \<and>
      map_of r ''timestamp'' = Some (Str (isoformat ts)) \<and>
      field r ''X3_open'' = Some (of_int (simulate_open_regime ts)) \<and>
      (\<exists>x1 m1 y.
         field r ''X1_occupancy'' = Some x1 \<and> field r ''M1_activation'' = Some m1 \<and>
         field r ''Y_kwh'' = Some y \<and>
         0 \<le> x1 \<and> x1 \<le> 220 \<and> (simulate_open_regime ts = 0 \<longrightarrow> x1 = 0) \<and>
         0 \<le> m1 \<and> m1 \<le> 2 \<and> 0 \<le> y))"

text \<open>
  A random source whose every standard normal variate is \<open>z\<close>, whatever the seed: the
  source of the concrete runs below.
\<close>

definition const_gen :: "real \<Rightarrow> int \<Rightarrow> nat \<Rightarrow> real" where
  "const_gen z s k = z"

section \<open>Properties\<close>

subsection \<open>Evaluation and arithmetic\<close>

lemmas calendar_defs = mk_datetime_def toordinal_def US_PER_DAY_def ymd2ord_def
  days_before_year_def days_before_month_def DAYS_BEFORE_MONTH_def DAYS_IN_MONTH_def
  is_leap_def weekday_def hour_def minute_def second_def microsecond_def
  year_def month_def day_def ord2ymd_def tm_yday_def frac_hour_def

lemmas grid_defs = generate_time_index_def py_range_def time_point_def timedelta_minutes_def
  timedelta_mul_def timedelta_ok_def datetime_add_def valid_datetime_def MAXORDINAL_def
  int_truediv_def

lemma minute_range: "0 \<le> minute ts \<and> minute ts < 60"
  by (simp add: minute_def)

lemma frac_hour_ge: "(of_int k \<le> frac_hour ts) = (k \<le> hour ts)"
proof -
  have m: "0 \<le> (of_int (minute ts) :: real)" "(of_int (minute ts) :: real) < 60"
    using minute_range [of ts] by simp_all
  show ?thesis
  proof
    assume a: "of_int k \<le> frac_hour ts"
    show "k \<le> hour ts"
    proof (rule ccontr)
      assume "\<not> k \<le> hour ts"
      then have "hour ts + 1 \<le> k" by simp
      then have "(of_int (hour ts) :: real) + 1 \<le> of_int k" by linarith
      with a m show False by (simp add: frac_hour_def)
    qed
  next
    assume "k \<le> hour ts"
    then have "(of_int k :: real) \<le> of_int (hour ts)" by simp
    with m show "of_int k \<le> frac_hour ts" by (simp add: frac_hour_def)
  qed
qed

lemma frac_hour_less: "(frac_hour ts < of_int k) = (hour ts < k)"
  using frac_hour_ge [of k ts] by linarith


subsection \<open>The regime schedule\<close>

text \<open>
  Claim C9. At every timestamp the regime is 1 exactly on a weekday (Monday to Friday,
  weekday numbers 0 to 4) with the hour of the day from 8 up to but not including 22, or
  on a weekend day with the hour from 10 up to but not including 18, and 0 otherwise.
  2025-01-01 is a Wednesday and 2025-01-04 a Saturday: the regime is 1 on that Wednesday
  at 09:00 and on that Saturday at 11:00, and 0 on that Wednesday at 23:00 and on that
  Saturday at 09:00.
\<close>

theorem simulate_open_regime_schedule:
  "simulate_open_regime ts =
     (if (weekday ts \<le> 4 \<and> 8 \<le> hour ts \<and> hour ts < 22) \<or>
         (5 \<le> weekday ts \<and> 10 \<le> hour ts \<and> hour ts < 18)
      then 1 else 0) \<and>
   weekday (mk_datetime 2025 1 1 9 0 0) = 2 \<and>
   simulate_open_regime (mk_datetime 2025 1 1 9 0 0) = 1 \<and>
   simulate_open_regime (mk_datetime 2025 1 1 23 0 0) = 0 \<and>
   weekday (mk_datetime 2025 1 4 11 0 0) = 5 \<and>
   simulate_open_regime (mk_datetime 2025 1 4 11 0 0) = 1 \<and>
   simulate_open_regime (mk_datetime 2025 1 4 9 0 0) = 0"
proof -
  have "simulate_open_regime ts =
     (if (weekday ts \<le> 4 \<and> 8 \<le> hour ts \<and> hour ts < 22) \<or>
         (5 \<le> weekday ts \<and> 10 \<le> hour ts \<and> hour ts < 18)
      then 1 else 0)"
    using frac_hour_ge [of 8 ts] frac_hour_ge [of 10 ts]
          frac_hour_less [of ts 22] frac_hour_less [of ts 18]
    by (simp add: simulate_open_regime_def Let_def)
  moreover have "weekday (mk_datetime 2025 1 1 9 0 0) = 2"
    and "weekday (mk_datetime 2025 1 4 11 0 0) = 5"
    by (simp_all add: calendar_defs)
  moreover have "simulate_open_regime (mk_datetime 2025 1 1 9 0 0) = 1"
    and "simulate_open_regime (mk_datetime 2025 1 1 23 0 0) = 0"
    and "simulate_open_regime (mk_datetime 2025 1 4 11 0 0) = 1"
    and "simulate_open_regime (mk_datetime 2025 1 4 9 0 0) = 0"
    by (simp_all add: simulate_open_regime_def calendar_defs)
  ultimately show ?thesis by simp
qed

theorem simulate_open_regime_schedule_witness:
  "hour (mk_datetime 2025 1 6 21 59 59) = 21 \<and> weekday (mk_datetime 2025 1 6 21 59 59) = 0 \<and>
   simulate_open_regime (mk_datetime 2025 1 6 21 59 59) = 1"
proof -
  have "hour (mk_datetime 2025 1 6 21 59 59) = 21"
    and "weekday (mk_datetime 2025 1 6 21 59 59) = 0"
    by (simp_all add: calendar_defs)
  then show ?thesis
    using simulate_open_regime_schedule [of "mk_datetime 2025 1 6 21 59 59"] by simp
qed

subsection \<open>The two comfort-pressure functions\<close>







subsection \<open>Rounding keeps bounds that are multiples of the unit\<close>

lemma round_half_even_ge: "of_int k \<le> r \<Longrightarrow> k \<le> round_half_even r"
proof -
  assume "of_int k \<le> r"
  then have "k \<le> \<lfloor>r\<rfloor>" by (simp add: le_floor_iff)
  then show ?thesis by (simp add: round_half_even_def Let_def)
qed

lemma round_half_even_le: "r \<le> of_int k \<Longrightarrow> round_half_even r \<le> k"
proof -
  assume a: "r \<le> of_int k"
  then have f: "\<lfloor>r\<rfloor> \<le> k" by (simp add: floor_le_iff)
  have "r - of_int \<lfloor>r\<rfloor> \<ge> 1 / 2 \<Longrightarrow> \<lfloor>r\<rfloor> + 1 \<le> k"
  proof -
    assume "r - of_int \<lfloor>r\<rfloor> \<ge> 1 / 2"
    then have "of_int \<lfloor>r\<rfloor> < r" by simp
    with a have "(of_int \<lfloor>r\<rfloor> :: real) < of_int k" by linarith
    then show ?thesis by simp
  qed
  with f show ?thesis by (auto simp add: round_half_even_def Let_def)
qed

lemma py_round_ge: "of_int a / 10 ^ n \<le> x \<Longrightarrow> of_int a / 10 ^ n \<le> py_round x n"
proof -
  assume "of_int a / 10 ^ n \<le> x"
  then have "of_int a \<le> x * 10 ^ n" by (simp add: pos_divide_le_eq)
  then have "a \<le> round_half_even (x * 10 ^ n)" by (rule round_half_even_ge)
  then have "(of_int a :: real) \<le> of_int (round_half_even (x * 10 ^ n))" by simp
  then show ?thesis by (simp add: py_round_def divide_right_mono)
qed

lemma py_round_le: "x \<le> of_int a / 10 ^ n \<Longrightarrow> py_round x n \<le> of_int a / 10 ^ n"
proof -
  assume "x \<le> of_int a / 10 ^ n"
  then have "x * 10 ^ n \<le> of_int a" by (simp add: pos_le_divide_eq)
  then have "round_half_even (x * 10 ^ n) \<le> a" by (rule round_half_even_le)
  then have "(of_int (round_half_even (x * 10 ^ n)) :: real) \<le> of_int a" by simp
  then show ?thesis by (simp add: py_round_def divide_right_mono)
qed

lemma py_round_nonneg: "0 \<le> x \<Longrightarrow> 0 \<le> py_round x n"
  using py_round_ge [of 0 n x] by simp

lemma py_round_zero: "py_round 0 n = 0"
  by (simp add: py_round_def round_half_even_def)

lemma py_round_le_220: "x \<le> 220 \<Longrightarrow> py_round x 3 \<le> 220"
  using py_round_le [of x 220000 3] by simp

lemma py_round_le_2: "x \<le> 2 \<Longrightarrow> py_round x 4 \<le> 2"
  using py_round_le [of x 20000 4] by simp

subsection \<open>One step of the loop\<close>

lemma simulate_occupancy_rng:
  "snd (simulate_occupancy ts x3 a g) = g\<lparr>pos := pos g + (if x3 = 0 then 0 else 1)\<rparr>"
  by (simp add: simulate_occupancy_def normalvariate_def Let_def)

lemma simulate_occupancy_bounds:
  "0 \<le> fst (simulate_occupancy ts x3 a g) \<and> fst (simulate_occupancy ts x3 a g) \<le> 220"
  by (simp add: simulate_occupancy_def normalvariate_def Let_def clamp_def)

lemma sim_step_y:
  "y_prev (sim_step cfg st ts) =
     max 0 (inertia_phi cfg * y_prev st +
            (1 - inertia_phi cfg) * spec_baseline_target cfg ts (step_occupancy cfg st ts) +
            step_noise cfg st ts)"
  by (simp add: sim_step_def step_occupancy_def step_noise_def spec_baseline_target_def
      Let_def split: prod.split)

lemma sim_step_rng:
  "rng (sim_step cfg st ts) =
     (rng st)\<lparr>pos := pos (rng st) + (if simulate_open_regime ts = 0 then 1 else 2)\<rparr>"
  by (simp add: sim_step_def simulate_occupancy_def normalvariate_def Let_def)

lemma sim_step_rng_order:
  "rng (sim_step cfg st ts) =
     snd (normalvariate
            (snd (simulate_occupancy ts (simulate_open_regime ts) (academic_intensity cfg) (rng st)))
            0 (noise_sigma cfg))"
  by (simp add: sim_step_def Let_def split: prod.split)

lemma step_noise_draw:
  "step_noise cfg st ts =
     stream (rng st) (pos (rng st) + (if simulate_open_regime ts = 0 then 0 else 1)) *
     noise_sigma cfg"
  by (simp add: step_noise_def simulate_occupancy_rng normalvariate_def)

lemma sim_step_rows:
  "\<exists>r. rows (sim_step cfg st ts) = rows st @ [r] \<and> record_of_step ts r"
  using simulate_occupancy_bounds [of ts "simulate_open_regime ts" "academic_intensity cfg" "rng st"]
  apply (simp add: sim_step_def Let_def record_of_step_def FIELD_NAMES_def field_def split: prod.split)
  apply (intro allI impI conjI)
  apply (simp_all add: py_round_nonneg py_round_le_220 py_round_le_2 clamp_def)
  apply (simp add: simulate_occupancy_def py_round_zero)
  done

lemma sim_step_last_fields:
  "field (last (rows (sim_step cfg st ts))) ''X1_occupancy'' =
     Some (py_round (step_occupancy cfg st ts) 3) \<and>
   field (last (rows (sim_step cfg st ts))) ''X3_open'' =
     Some (of_int (simulate_open_regime ts)) \<and>
   field (last (rows (sim_step cfg st ts))) ''Y_kwh'' =
     Some (py_round (y_prev (sim_step cfg st ts)) 4)"
  by (simp add: sim_step_def step_occupancy_def Let_def field_def split: prod.split)

lemma step_occupancy_draw:
  "step_occupancy cfg st ts =
     (if simulate_open_regime ts = 0 then 0
      else clamp (180 * academic_intensity cfg *
                    (0.6 * exp (- ((frac_hour ts - 13) ^ 2) / (2 * 3.5 ^ 2)) +
                     0.4 * exp (- ((frac_hour ts - 18) ^ 2) / (2 * 2.8 ^ 2))) *
                    (if weekday ts \<le> 4 then 1 else 0.65) +
                  stream (rng st) (pos (rng st)) * 8) 0 220)"
  by (simp add: step_occupancy_def simulate_occupancy_def normalvariate_def Let_def)

subsection \<open>The whole loop\<close>

lemma foldl_sim_step_rows:
  "\<exists>rs. rows (foldl (sim_step cfg) st tms) = rows st @ rs \<and> list_all2 record_of_step tms rs"
proof (induction tms arbitrary: st)
  case Nil
  then show ?case by simp
next
  case (Cons t tms)
  obtain r where r: "rows (sim_step cfg st t) = rows st @ [r]" "record_of_step t r"
    using sim_step_rows by blast
  obtain rs where rs:
    "rows (foldl (sim_step cfg) (sim_step cfg st t) tms) = rows (sim_step cfg st t) @ rs"
    "list_all2 record_of_step tms rs"
    using Cons.IH by blast
  have "rows (foldl (sim_step cfg) st (t # tms)) = rows st @ (r # rs)"
    using r rs by simp
  moreover have "list_all2 record_of_step (t # tms) (r # rs)" using r rs by simp
  ultimately show ?case by blast
qed

lemma foldl_sim_step_rng:
  "rng (foldl (sim_step cfg) st tms) =
     (rng st)\<lparr>pos := pos (rng st) + length tms +
        length (filter (\<lambda>ts. simulate_open_regime ts \<noteq> 0) tms)\<rparr>"
  by (induction tms arbitrary: st) (simp_all add: sim_step_rng)

lemma open_rows_count:
  "list_all2 record_of_step tms rs \<Longrightarrow>
     length (filter (\<lambda>r. field r ''X3_open'' = Some 1) rs) =
     length (filter (\<lambda>ts. simulate_open_regime ts \<noteq> 0) tms)"
proof (induction rule: list_all2_induct)
  case Nil
  then show ?case by simp
next
  case (Cons t tms r rs)
  have "simulate_open_regime t = 0 \<or> simulate_open_regime t = 1"
    by (simp add: simulate_open_regime_def Let_def)
  moreover have "field r ''X3_open'' = Some (of_int (simulate_open_regime t))"
    using Cons.hyps(1) by (simp add: record_of_step_def)
  ultimately show ?case using Cons.IH by auto
qed

text \<open>What a run is, when it does not raise.\<close>

lemma simulate_run_Inr:
  "simulate_run gen cfg start = Inr st \<Longrightarrow>
   \<exists>tms. generate_time_index
            (case start of None \<Rightarrow> mk_datetime 2025 1 1 0 0 0 | Some s \<Rightarrow> s)
            (n_days cfg * int_truediv (24 * 60) (freq_minutes cfg)) (freq_minutes cfg) = Inr tms \<and>
          st = foldl (sim_step cfg)
                 \<lparr>rows = [], y_prev = base_kwh_when_closed cfg, rng = Random gen (seed cfg)\<rparr> tms"
  by (auto simp add: simulate_run_def Let_def split: if_splits sum.splits)

lemma simulate_run_rows:
  "simulate_run gen cfg start = Inr st \<Longrightarrow>
   \<exists>tms. generate_time_index
            (case start of None \<Rightarrow> mk_datetime 2025 1 1 0 0 0 | Some s \<Rightarrow> s)
            (n_days cfg * int_truediv (24 * 60) (freq_minutes cfg)) (freq_minutes cfg) = Inr tms \<and>
          list_all2 record_of_step tms (rows st) \<and>
          rng st = \<lparr>stream = gen (seed cfg),
                     pos = length tms + length (filter (\<lambda>ts. simulate_open_regime ts \<noteq> 0) tms)\<rparr>"
proof -
  assume "simulate_run gen cfg start = Inr st"
  then obtain tms where t:
    "generate_time_index
            (case start of None \<Rightarrow> mk_datetime 2025 1 1 0 0 0 | Some s \<Rightarrow> s)
            (n_days cfg * int_truediv (24 * 60) (freq_minutes cfg)) (freq_minutes cfg) = Inr tms"
    "st = foldl (sim_step cfg)
                 \<lparr>rows = [], y_prev = base_kwh_when_closed cfg, rng = Random gen (seed cfg)\<rparr> tms"
    using simulate_run_Inr by blast
  have "list_all2 record_of_step tms (rows st)"
    using foldl_sim_step_rows [of cfg
        "\<lparr>rows = [], y_prev = base_kwh_when_closed cfg, rng = Random gen (seed cfg)\<rparr>" tms] t(2)
    by auto
  moreover have "rng st = \<lparr>stream = gen (seed cfg),
                     pos = length tms + length (filter (\<lambda>ts. simulate_open_regime ts \<noteq> 0) tms)\<rparr>"
    using t(2) by (simp add: foldl_sim_step_rng Random_def)
  ultimately show ?thesis using t(1) by blast
qed

subsection \<open>The time grid\<close>

lemma collect_map_Inr:
  "(\<And>x. x \<in> set xs \<Longrightarrow> f x = Inr (g x)) \<Longrightarrow> collect (map f xs) = Inr (map g xs)"
  by (induction xs) simp_all

lemma collect_length: "collect xs = Inr ys \<Longrightarrow> length ys = length xs"
  by (induction xs arbitrary: ys) (auto split: sum.splits)

lemma valid_datetime_iff:
  "valid_datetime ts = (86400000000 \<le> us_of ts \<and> us_of ts < 315537984000000000)"
  unfolding valid_datetime_def toordinal_def US_PER_DAY_def MAXORDINAL_def
  by arith

lemma timedelta_ok_small:
  "0 \<le> us \<Longrightarrow> us < 315537984000000000 \<Longrightarrow> timedelta_ok us"
  unfolding timedelta_ok_def US_PER_DAY_def
  by arith

lemma time_point_ok:
  assumes "0 < f" "f \<le> 1440" "0 \<le> i" "valid_datetime s"
    and "us_of s + f * 60000000 * i < 315537984000000000"
  shows "time_point s f i = Inr (DT (us_of s + f * 60000000 * i))"
proof -
  have s: "86400000000 \<le> us_of s" using assms(4) by (simp add: valid_datetime_iff)
  have d: "0 \<le> f * 60000000 * i" using assms(1,3) by simp
  have "timedelta_ok (f * 60000000)"
    using assms(1,2) by (intro timedelta_ok_small) simp_all
  moreover have "timedelta_ok (f * 60000000 * i)"
    using d s assms(5) by (intro timedelta_ok_small) simp_all
  moreover have "valid_datetime (DT (us_of s + f * 60000000 * i))"
    using d s assms(5) by (simp add: valid_datetime_iff)
  ultimately show ?thesis
    by (simp add: time_point_def timedelta_minutes_def timedelta_mul_def datetime_add_def)
qed

lemma generate_time_index_ok:
  assumes "0 < f" "f \<le> 1440" "valid_datetime s"
    and "us_of s + f * 60000000 * (n - 1) < 315537984000000000"
  shows "generate_time_index s n f = Inr (spec_time_grid s n f)"
  unfolding generate_time_index_def spec_time_grid_def
proof (rule collect_map_Inr)
  fix i assume "i \<in> set (py_range n)"
  then have i: "0 \<le> i" "i \<le> n - 1" by (auto simp add: py_range_def)
  have "f * 60000000 * i \<le> f * 60000000 * (n - 1)"
    using i(2) assms(1) by (intro mult_left_mono) simp_all
  with assms(4) have "us_of s + f * 60000000 * i < 315537984000000000" by linarith
  with assms i show "time_point s f i = Inr (DT (us_of s + f * 60000000 * i))"
    by (intro time_point_ok)
qed

lemma int_truediv_pos: "0 < b \<Longrightarrow> int_truediv 1440 b = 1440 div b"
  by (simp add: int_truediv_def)

lemma spec_time_grid_length: "length (spec_time_grid s n f) = nat n"
  by (simp add: spec_time_grid_def py_range_def)

lemma spec_time_grid_nth:
  "i < nat n \<Longrightarrow> spec_time_grid s n f ! i = DT (us_of s + f * 60000000 * int i)"
  by (simp add: spec_time_grid_def py_range_def)

lemma spec_time_grid_sorted:
  "0 < f \<Longrightarrow> sorted_wrt (\<lambda>a b. us_of a < us_of b) (spec_time_grid s n f)"
  by (simp add: sorted_wrt_iff_nth_less spec_time_grid_length spec_time_grid_nth)

lemma simulate_run_ok:
  assumes "0 < freq_minutes cfg" "freq_minutes cfg dvd 1440"
    and "s = (case start of None \<Rightarrow> mk_datetime 2025 1 1 0 0 0 | Some t \<Rightarrow> t)"
    and "valid_datetime s"
    and "us_of s + freq_minutes cfg * 60000000 * (n_days cfg * (1440 div freq_minutes cfg) - 1)
           < (MAXORDINAL + 1) * US_PER_DAY"
  shows "generate_time_index s (n_days cfg * (1440 div freq_minutes cfg)) (freq_minutes cfg) =
           Inr (spec_time_grid s (n_days cfg * (1440 div freq_minutes cfg)) (freq_minutes cfg)) \<and>
         simulate_run gen cfg start =
           Inr (foldl (sim_step cfg)
                  \<lparr>rows = [], y_prev = base_kwh_when_closed cfg, rng = Random gen (seed cfg)\<rparr>
                  (spec_time_grid s (n_days cfg * (1440 div freq_minutes cfg)) (freq_minutes cfg)))"
proof -
  have le: "freq_minutes cfg \<le> 1440" using assms(1,2) by (simp add: zdvd_imp_le)
  have g: "generate_time_index s (n_days cfg * (1440 div freq_minutes cfg)) (freq_minutes cfg) =
           Inr (spec_time_grid s (n_days cfg * (1440 div freq_minutes cfg)) (freq_minutes cfg))"
    using assms(1,4,5) le
    by (intro generate_time_index_ok) (simp_all add: MAXORDINAL_def US_PER_DAY_def)
  then show ?thesis
    using assms(1,3) by (simp add: simulate_run_def Let_def int_truediv_pos)
qed

text \<open>The default start, evaluated in stages.\<close>

lemma start_default_us: "mk_datetime 2025 1 1 0 0 0 = DT 63871372800000000"
  by (simp add: mk_datetime_def ymd2ord_def days_before_year_def days_before_month_def
      DAYS_BEFORE_MONTH_def US_PER_DAY_def)

lemma start_default_ordinal: "toordinal (DT 63871372800000000) = 739252"
  by (simp add: toordinal_def US_PER_DAY_def)

lemma start_default_ymd: "ord2ymd 739252 = (2025, 1, 1)"
  by (simp add: ord2ymd_def Let_def DAYS_BEFORE_MONTH_def DAYS_IN_MONTH_def)

lemma start_default_iso: "isoformat (mk_datetime 2025 1 1 0 0 0) = ''2025-01-01T00:00:00''"
  by (simp add: start_default_us isoformat_def year_def month_def day_def start_default_ordinal
      start_default_ymd hour_def minute_def second_def microsecond_def dec2_def dec4_def
      digit_def)

lemma start_default_valid: "valid_datetime (mk_datetime 2025 1 1 0 0 0)"
  by (simp add: start_default_us valid_datetime_def start_default_ordinal MAXORDINAL_def)

lemma upt_0_2: "[0..<2] = [0, Suc 0]"
  by (simp add: upt_rec)

lemma record_of_step_timestamps:
  "list_all2 record_of_step tms rs \<Longrightarrow>
     map (\<lambda>r. map_of r ''timestamp'') rs = map (\<lambda>t. Some (Str (isoformat t))) tms"
  by (induction rule: list_all2_induct) (simp_all add: record_of_step_def)

text \<open>Runs of a single step.\<close>

lemma start_default_closed: "simulate_open_regime (mk_datetime 2025 1 1 0 0 0) = 0"
  by (simp add: start_default_us simulate_open_regime_def weekday_def frac_hour_def hour_def
      minute_def start_default_ordinal)

lemma one_step_run_state:
  assumes "s = (case start of None \<Rightarrow> mk_datetime 2025 1 1 0 0 0 | Some t \<Rightarrow> t)"
    and "valid_datetime s" and "n_days cfg = 1" and "freq_minutes cfg = 1440"
  shows "simulate_run gen cfg start =
     Inr (sim_step cfg \<lparr>rows = [], y_prev = base_kwh_when_closed cfg,
                          rng = Random gen (seed cfg)\<rparr> s)"
proof -
  have "us_of s < (MAXORDINAL + 1) * US_PER_DAY"
    using assms(2) by (simp add: valid_datetime_iff MAXORDINAL_def US_PER_DAY_def)
  then have "simulate_run gen cfg start =
           Inr (foldl (sim_step cfg)
                  \<lparr>rows = [], y_prev = base_kwh_when_closed cfg, rng = Random gen (seed cfg)\<rparr>
                  (spec_time_grid s (n_days cfg * (1440 div freq_minutes cfg)) (freq_minutes cfg)))"
    using simulate_run_ok [of cfg s start gen] assms by simp
  moreover have "spec_time_grid s 1 1440 = [s]"
    by (simp add: spec_time_grid_def py_range_def)
  ultimately show ?thesis using assms(3,4) by simp
qed

lemma one_step_run:
  "\<exists>r. simulate gen (SimConfig_default\<lparr>n_days := 1, freq_minutes := 1440\<rparr>) None = Inr [r] \<and>
       record_of_step (mk_datetime 2025 1 1 0 0 0) r"
proof -
  let ?cfg = "SimConfig_default\<lparr>n_days := 1, freq_minutes := 1440\<rparr>"
  have "simulate_run gen ?cfg None =
     Inr (sim_step ?cfg \<lparr>rows = [], y_prev = base_kwh_when_closed ?cfg,
                          rng = Random gen (seed ?cfg)\<rparr> (mk_datetime 2025 1 1 0 0 0))"
    using start_default_valid by (intro one_step_run_state) simp_all
  then show ?thesis
    using sim_step_rows [of ?cfg "\<lparr>rows = [], y_prev = base_kwh_when_closed ?cfg,
                          rng = Random gen (seed ?cfg)\<rparr>" "mk_datetime 2025 1 1 0 0 0"]
    by (auto simp add: simulate_def)
qed

lemma nine_oclock_us: "mk_datetime 2025 1 1 9 0 0 = DT 63871405200000000"
  by (simp add: mk_datetime_def ymd2ord_def days_before_year_def days_before_month_def
      DAYS_BEFORE_MONTH_def US_PER_DAY_def)

lemma nine_oclock_ordinal: "toordinal (DT 63871405200000000) = 739252"
  by (simp add: toordinal_def US_PER_DAY_def)

lemma nine_oclock_open: "simulate_open_regime (mk_datetime 2025 1 1 9 0 0) = 1"
  by (simp add: nine_oclock_us simulate_open_regime_def weekday_def frac_hour_def hour_def
      minute_def nine_oclock_ordinal)

lemma nine_oclock_valid: "valid_datetime (mk_datetime 2025 1 1 9 0 0)"
  by (simp add: nine_oclock_us valid_datetime_def nine_oclock_ordinal MAXORDINAL_def)

lemma exp_neg_le: "0 \<le> x \<Longrightarrow> exp (- x) \<le> 1 / (1 + (x :: real))"
proof -
  assume x: "0 \<le> x"
  have "1 + x \<le> exp x" by (rule exp_ge_add_one_self)
  then have "inverse (exp x) \<le> inverse (1 + x)"
    using x by (intro le_imp_inverse_le) simp_all
  then show ?thesis by (simp add: exp_minus inverse_eq_divide)
qed

lemma nine_oclock_frac_hour: "frac_hour (mk_datetime 2025 1 1 9 0 0) = 9"
  by (simp add: nine_oclock_us frac_hour_def hour_def minute_def)

lemma nine_oclock_weekday: "weekday (mk_datetime 2025 1 1 9 0 0) = 2"
  by (simp add: nine_oclock_us weekday_def nine_oclock_ordinal)

lemma nine_oclock_occupancy:
  assumes "stream g (pos g) = - 10"
  shows "fst (simulate_occupancy (mk_datetime 2025 1 1 9 0 0) 1 1.0 g) = 0"
proof -
  have e1: "exp (- (32 / 49)) \<le> (49 / 81 :: real)"
    using exp_neg_le [of "32 / 49"] by simp
  have e2: "exp (- (2025 / 392)) \<le> (392 / 2417 :: real)"
    using exp_neg_le [of "2025 / 392"] by simp
  have a1: "- ((9 - 13 :: real) ^ 2) / (2 * 3.5 ^ 2) = - (32 / 49)"
    by (simp add: power2_eq_square)
  have a2: "- ((9 - 18 :: real) ^ 2) / (2 * 2.8 ^ 2) = - (2025 / 392)"
    by (simp add: power2_eq_square)
  have "180 * 1.0 * (0.6 * exp (- ((9 - 13 :: real) ^ 2) / (2 * 3.5 ^ 2)) +
                     0.4 * exp (- ((9 - 18 :: real) ^ 2) / (2 * 2.8 ^ 2))) * 1.0 +
        (0 + (- 10) * 8) \<le> (0 :: real)"
    unfolding a1 a2 using e1 e2 by simp
  then show ?thesis
    using assms
    by (simp add: simulate_occupancy_def Let_def normalvariate_def nine_oclock_frac_hour
        nine_oclock_weekday clamp_def)
qed

subsection \<open>Bounds on the records\<close>

text \<open>
  Claim C3. Every record of a run that returns has the numeric fields
  \<open>X1_occupancy\<close>, \<open>X3_open\<close>, \<open>M1_activation\<close> and \<open>Y_kwh\<close>, with
  \<open>0 \<le> X1_occupancy \<le> 220\<close>, \<open>X1_occupancy = 0\<close> whenever \<open>X3_open = 0\<close>,
  \<open>0 \<le> M1_activation \<le> 2\<close> and \<open>Y_kwh \<ge> 0\<close>. The bounds hold for the rounded values
  that the record stores.
\<close>

theorem record_bounds:
  assumes "simulate gen cfg start = Inr rs" and "r \<in> set rs"
  shows "\<exists>x1 x3 m1 y.
           field r ''X1_occupancy'' = Some x1 \<and> field r ''X3_open'' = Some x3 \<and>
           field r ''M1_activation'' = Some m1 \<and> field r ''Y_kwh'' = Some y \<and>
           0 \<le> x1 \<and> x1 \<le> 220 \<and> (x3 = 0 \<longrightarrow> x1 = 0) \<and>
           0 \<le> m1 \<and> m1 \<le> 2 \<and> 0 \<le> y"
proof -
  obtain st where st: "simulate_run gen cfg start = Inr st" "rs = rows st"
    using assms(1) by (auto simp add: simulate_def split: sum.splits)
  obtain tms where "list_all2 record_of_step tms (rows st)"
    using simulate_run_rows [OF st(1)] by blast
  then obtain ts where "record_of_step ts r"
    using assms(2) st(2) by (auto simp add: list_all2_conv_all_nth in_set_conv_nth)
  then show ?thesis
    unfolding record_of_step_def by auto
qed

text \<open>
  The single record of a one-step run from the default start (midnight, closed): the
  regime is 0 and so is the occupancy.
\<close>

theorem record_bounds_witness:
  "\<exists>r x1 m1 y.
     simulate (const_gen 0) (SimConfig_default\<lparr>n_days := 1, freq_minutes := 1440\<rparr>) None = Inr [r] \<and>
     field r ''X1_occupancy'' = Some x1 \<and> field r ''X3_open'' = Some 0 \<and>
     field r ''M1_activation'' = Some m1 \<and> field r ''Y_kwh'' = Some y \<and>
     x1 = 0 \<and> 0 \<le> m1 \<and> m1 \<le> 2 \<and> 0 \<le> y"
proof -
  obtain r where r:
    "simulate (const_gen 0) (SimConfig_default\<lparr>n_days := 1, freq_minutes := 1440\<rparr>) None = Inr [r]"
    "record_of_step (mk_datetime 2025 1 1 0 0 0) r"
    using one_step_run by blast
  have m: "r \<in> set [r]" by simp
  have x3: "field r ''X3_open'' = Some 0"
    using r(2) by (simp add: record_of_step_def start_default_closed)
  obtain x1 x3 m1 y where b:
     "field r ''X1_occupancy'' = Some x1" "field r ''X3_open'' = Some x3"
     "field r ''M1_activation'' = Some m1" "field r ''Y_kwh'' = Some y"
     "0 \<le> x1" "x1 \<le> 220" "x3 = 0 \<longrightarrow> x1 = 0" "0 \<le> m1" "m1 \<le> 2" "0 \<le> y"
    using record_bounds [OF r(1) m] by blast
  have "x1 = 0" using b(2,7) x3 by simp
  then show ?thesis using r(1) b x3 by blast
qed


subsection \<open>The draws of a run\<close>

text \<open>
  Claim C2, as amended. The random source is seeded once, before the loop, and never
  again: at the end of a run its sequence is still the one of the configuration's seed.
  The occupancy call leaves the source as it is when the regime is closed and draws one
  variate when it is open; the step then draws exactly one noise variate from the source
  that the occupancy call leaves behind. So, with \<open>p\<close> the number of variates drawn
  before the step, the occupancy that the step records is 0 when the regime is closed and
  is computed from variate \<open>p\<close> when it is open, and the energy of the step is computed
  from that occupancy and from the noise variate \<open>p\<close> (closed) or \<open>p + 1\<close> (open): the
  occupancy draw comes first, the noise draw second. A step consumes two draws when the
  regime is open and one when it is closed, and a run consumes one draw for every record
  plus one for every record with \<open>X3_open = 1\<close>.
\<close>

theorem draws_per_step:
  "snd (simulate_occupancy ts x3 a g) = g\<lparr>pos := pos g + (if x3 = 0 then 0 else 1)\<rparr> \<and>
   rng (sim_step cfg st ts) =
     snd (normalvariate
            (snd (simulate_occupancy ts (simulate_open_regime ts) (academic_intensity cfg) (rng st)))
            0 (noise_sigma cfg)) \<and>
   rng (sim_step cfg st ts) =
     (rng st)\<lparr>pos := pos (rng st) + (if simulate_open_regime ts = 0 then 1 else 2)\<rparr> \<and>
   (let occ =
          (if simulate_open_regime ts = 0 then 0
           else clamp (180 * academic_intensity cfg *
                         (0.6 * exp (- ((frac_hour ts - 13) ^ 2) / (2 * 3.5 ^ 2)) +
                          0.4 * exp (- ((frac_hour ts - 18) ^ 2) / (2 * 2.8 ^ 2))) *
                         (if weekday ts \<le> 4 then 1 else 0.65) +
                       stream (rng st) (pos (rng st)) * 8) 0 220);
        noise =
          stream (rng st) (pos (rng st) + (if simulate_open_regime ts = 0 then 0 else 1)) *
          noise_sigma cfg
    in field (last (rows (sim_step cfg st ts))) ''X1_occupancy'' = Some (py_round occ 3) \<and>
       y_prev (sim_step cfg st ts) =
         max 0 (inertia_phi cfg * y_prev st +
                (1 - inertia_phi cfg) * spec_baseline_target cfg ts occ + noise) \<and>
       field (last (rows (sim_step cfg st ts))) ''Y_kwh'' =
         Some (py_round (y_prev (sim_step cfg st ts)) 4)) \<and>
   step_noise cfg st ts =
     stream (rng st) (pos (rng st) + (if simulate_open_regime ts = 0 then 0 else 1)) *
     noise_sigma cfg \<and>
   (simulate_run gen cfg start = Inr st' \<longrightarrow>
      rng st' = \<lparr>stream = gen (seed cfg),
                  pos = length (rows st') +
                        length (filter (\<lambda>r. field r ''X3_open'' = Some 1) (rows st'))\<rparr>)"
proof -
  have run: "simulate_run gen cfg start = Inr st' \<longrightarrow>
      rng st' = \<lparr>stream = gen (seed cfg),
                  pos = length (rows st') +
                        length (filter (\<lambda>r. field r ''X3_open'' = Some 1) (rows st'))\<rparr>"
  proof
    assume "simulate_run gen cfg start = Inr st'"
    then obtain tms where t: "list_all2 record_of_step tms (rows st')"
      "rng st' = \<lparr>stream = gen (seed cfg),
         pos = length tms + length (filter (\<lambda>ts. simulate_open_regime ts \<noteq> 0) tms)\<rparr>"
      using simulate_run_rows by blast
    show "rng st' = \<lparr>stream = gen (seed cfg),
                  pos = length (rows st') +
                        length (filter (\<lambda>r. field r ''X3_open'' = Some 1) (rows st'))\<rparr>"
      using t(2) open_rows_count [OF t(1)] list_all2_lengthD [OF t(1)] by simp
  qed
  have occ: "field (last (rows (sim_step cfg st ts))) ''X1_occupancy'' =
      Some (py_round
        (if simulate_open_regime ts = 0 then 0
           else clamp (180 * academic_intensity cfg *
                         (0.6 * exp (- ((frac_hour ts - 13) ^ 2) / (2 * 3.5 ^ 2)) +
                          0.4 * exp (- ((frac_hour ts - 18) ^ 2) / (2 * 2.8 ^ 2))) *
                         (if weekday ts \<le> 4 then 1 else 0.65) +
                       stream (rng st) (pos (rng st)) * 8) 0 220) 3)"
    using sim_step_last_fields [of cfg st ts] unfolding step_occupancy_draw by blast
  have y: "y_prev (sim_step cfg st ts) =
         max 0 (inertia_phi cfg * y_prev st +
                (1 - inertia_phi cfg) * spec_baseline_target cfg ts
        (if simulate_open_regime ts = 0 then 0
           else clamp (180 * academic_intensity cfg *
                         (0.6 * exp (- ((frac_hour ts - 13) ^ 2) / (2 * 3.5 ^ 2)) +
                          0.4 * exp (- ((frac_hour ts - 18) ^ 2) / (2 * 2.8 ^ 2))) *
                         (if weekday ts \<le> 4 then 1 else 0.65) +
                       stream (rng st) (pos (rng st)) * 8) 0 220) +
          stream (rng st) (pos (rng st) + (if simulate_open_regime ts = 0 then 0 else 1)) *
          noise_sigma cfg)"
    using sim_step_y [of cfg st ts] unfolding step_occupancy_draw step_noise_draw by blast
  have yk: "field (last (rows (sim_step cfg st ts))) ''Y_kwh'' =
         Some (py_round (y_prev (sim_step cfg st ts)) 4)"
    using sim_step_last_fields [of cfg st ts] by blast
  show ?thesis
    unfolding Let_def
    using run occ y yk simulate_occupancy_rng [of ts x3 a g] sim_step_rng_order [of cfg st ts]
      sim_step_rng [of cfg st ts] step_noise_draw [of cfg st ts]
    by blast
qed

text \<open>
  A one-step run that starts on Wednesday 2025-01-01 at 09:00 (open), with a source whose
  first variate is \<open>-10\<close> and whose other variates are 1: two draws; the recorded
  occupancy is 0 (it comes from the first variate, \<open>-10\<close>), and the noise of the energy is
  2.5 (it comes from the second variate, 1).
\<close>

theorem draws_per_step_witness:
  "\<exists>st. simulate_run (\<lambda>s k. if k = 0 then - 10 else 1)
           (SimConfig_default\<lparr>n_days := 1, freq_minutes := 1440\<rparr>)
           (Some (mk_datetime 2025 1 1 9 0 0)) = Inr st \<and>
        simulate_open_regime (mk_datetime 2025 1 1 9 0 0) = 1 \<and>
        length (rows st) = 1 \<and>
        length (filter (\<lambda>r. field r ''X3_open'' = Some 1) (rows st)) = 1 \<and>
        pos (rng st) = 2 \<and>
        field (last (rows st)) ''X1_occupancy'' = Some 0 \<and>
        y_prev st =
          max 0 (0.75 * 8 +
                 0.25 * spec_baseline_target (SimConfig_default\<lparr>n_days := 1, freq_minutes := 1440\<rparr>)
                          (mk_datetime 2025 1 1 9 0 0) 0 +
                 2.5)"
proof -
  let ?gen = "\<lambda>(s :: int) (k :: nat). if k = 0 then - 10 else (1 :: real)"
  let ?cfg = "SimConfig_default\<lparr>n_days := 1, freq_minutes := 1440\<rparr>"
  let ?init = "\<lparr>rows = [], y_prev = base_kwh_when_closed ?cfg, rng = Random ?gen (seed ?cfg)\<rparr>"
  let ?t = "mk_datetime 2025 1 1 9 0 0"
  let ?fin = "sim_step ?cfg ?init ?t"
  note T = draws_per_step [where gen = ?gen and cfg = ?cfg and start = "Some ?t"
      and st' = ?fin and st = ?init and ts = ?t]
  have run: "simulate_run ?gen ?cfg (Some ?t) = Inr ?fin"
    using nine_oclock_valid by (intro one_step_run_state) simp_all
  obtain r where r: "rows ?fin = [r]" "record_of_step ?t r"
    using sim_step_rows [of ?cfg ?init ?t] by auto
  have x3: "field r ''X3_open'' = Some 1"
    using r(2) by (simp add: record_of_step_def nine_oclock_open)
  have "rng ?fin = \<lparr>stream = ?gen (seed ?cfg),
                  pos = length (rows ?fin) +
                        length (filter (\<lambda>r. field r ''X3_open'' = Some 1) (rows ?fin))\<rparr>"
    using T run by blast
  then have p: "pos (rng ?fin) = 2"
    using r(1) x3 by simp
  have c: "inertia_phi ?cfg = 0.75" "noise_sigma ?cfg = 2.5" "academic_intensity ?cfg = 1"
    "base_kwh_when_closed ?cfg = 8"
    by (simp_all add: SimConfig_default_def)
  have so: "step_occupancy ?cfg ?init ?t = 0"
    using nine_oclock_occupancy [of "Random ?gen (seed ?cfg)"]
    by (simp add: step_occupancy_def nine_oclock_open c Random_def)
  have sn: "step_noise ?cfg ?init ?t = 2.5"
    by (simp add: step_noise_draw nine_oclock_open c Random_def)
  have "field (last (rows ?fin)) ''X1_occupancy'' =
          Some (py_round (step_occupancy ?cfg ?init ?t) 3)"
    and "y_prev ?fin =
         max 0 (inertia_phi ?cfg * y_prev ?init +
                (1 - inertia_phi ?cfg) *
                  spec_baseline_target ?cfg ?t (step_occupancy ?cfg ?init ?t) +
                step_noise ?cfg ?init ?t)"
    using T unfolding Let_def step_occupancy_draw step_noise_draw by blast+
  then have "field (last (rows ?fin)) ''X1_occupancy'' = Some 0"
    and "y_prev ?fin = max 0 (0.75 * 8 + 0.25 * spec_baseline_target ?cfg ?t 0 + 2.5)"
    using so sn by (simp_all add: c py_round_zero)
  then show ?thesis using run r(1) x3 p nine_oclock_open by auto
qed

text \<open>
  Claim C2 as stated fails on a closed step: the one-step run from the default start
  (midnight) emits one record and has consumed one draw, not two.
\<close>

theorem draws_per_step_counterexample:
  "\<not> isl (simulate_run (const_gen 0) (SimConfig_default\<lparr>n_days := 1, freq_minutes := 1440\<rparr>) None) \<and>
   length (rows (projr (simulate_run (const_gen 0)
      (SimConfig_default\<lparr>n_days := 1, freq_minutes := 1440\<rparr>) None))) = 1 \<and>
   pos (rng (projr (simulate_run (const_gen 0)
      (SimConfig_default\<lparr>n_days := 1, freq_minutes := 1440\<rparr>) None))) = 1"
proof -
  let ?cfg = "SimConfig_default\<lparr>n_days := 1, freq_minutes := 1440\<rparr>"
  let ?init = "\<lparr>rows = [], y_prev = base_kwh_when_closed ?cfg, rng = Random (const_gen 0) (seed ?cfg)\<rparr>"
  let ?fin = "sim_step ?cfg ?init (mk_datetime 2025 1 1 0 0 0)"
  have run: "simulate_run (const_gen 0) ?cfg None = Inr ?fin"
    using start_default_valid by (intro one_step_run_state) simp_all
  have "length (rows ?fin) = 1"
    using sim_step_rows [of ?cfg ?init "mk_datetime 2025 1 1 0 0 0"] by auto
  moreover have "pos (rng ?fin) = 1"
    by (simp add: sim_step_rng start_default_closed Random_def)
  ultimately show ?thesis using run by simp
qed

subsection \<open>Determinism\<close>

lemma sim_step_agree:
  assumes "rows st = rows st'" and "y_prev st = y_prev st'" and "pos (rng st) = pos (rng st')"
    and "\<forall>k < pos (rng st) + 2. stream (rng st) k = stream (rng st') k"
  shows "rows (sim_step cfg st ts) = rows (sim_step cfg st' ts) \<and>
         y_prev (sim_step cfg st ts) = y_prev (sim_step cfg st' ts)"
proof -
  have a: "stream (rng st) (pos (rng st')) = stream (rng st') (pos (rng st'))"
    "stream (rng st) (Suc (pos (rng st'))) = stream (rng st') (Suc (pos (rng st')))"
    using assms(3,4) by simp_all
  show ?thesis
    using assms(1,2,3) a
    by (simp add: sim_step_def simulate_occupancy_def normalvariate_def Let_def)
qed

lemma foldl_sim_step_agree:
  assumes "rows st = rows st'" and "y_prev st = y_prev st'" and "pos (rng st) = pos (rng st')"
    and "\<forall>k < pos (rng st) + 2 * length tms. stream (rng st) k = stream (rng st') k"
  shows "rows (foldl (sim_step cfg) st tms) = rows (foldl (sim_step cfg) st' tms)"
  using assms
proof (induction tms arbitrary: st st')
  case Nil
  then show ?case by simp
next
  case (Cons t tms)
  have s: "rows (sim_step cfg st t) = rows (sim_step cfg st' t)"
    "y_prev (sim_step cfg st t) = y_prev (sim_step cfg st' t)"
    using sim_step_agree [of st st' cfg t] Cons.prems by simp_all
  have p: "pos (rng (sim_step cfg st t)) = pos (rng (sim_step cfg st' t))"
    using Cons.prems(3) by (simp add: sim_step_rng)
  have "\<forall>k < pos (rng (sim_step cfg st t)) + 2 * length tms.
          stream (rng (sim_step cfg st t)) k = stream (rng (sim_step cfg st' t)) k"
    using Cons.prems(4) by (simp add: sim_step_rng)
  then have "rows (foldl (sim_step cfg) (sim_step cfg st t) tms) =
        rows (foldl (sim_step cfg) (sim_step cfg st' t) tms)"
    using Cons.IH [OF s p] by simp
  then show ?case by simp
qed

text \<open>
  Claim C1. Two calls of \<open>simulate\<close> with the same configuration (seed included) and
  the same start return the same result, record for record and field for field (or
  raise the same exception). The random source enters a run only through the first
  \<open>2 * n_steps\<close> variates of the sequence of the configuration's seed: two sources
  that agree on those give the same result.
\<close>

theorem simulate_deterministic:
  "(cfg1 = cfg2 \<and> start1 = start2 \<longrightarrow> simulate gen cfg1 start1 = simulate gen cfg2 start2) \<and>
   ((\<forall>k < 2 * nat (n_days cfg * int_truediv (24 * 60) (freq_minutes cfg)).
        gen (seed cfg) k = gen' (seed cfg) k) \<longrightarrow>
    simulate gen cfg start = simulate gen' cfg start)"
proof -
  let ?s = "case start of None \<Rightarrow> mk_datetime 2025 1 1 0 0 0 | Some s \<Rightarrow> s"
  let ?n = "n_days cfg * int_truediv (24 * 60) (freq_minutes cfg)"
  have "simulate gen cfg start = simulate gen' cfg start"
    if agree: "\<forall>k < 2 * nat ?n. gen (seed cfg) k = gen' (seed cfg) k"
  proof (cases "generate_time_index ?s ?n (freq_minutes cfg)")
    case (Inl e)
    then show ?thesis by (simp add: simulate_def simulate_run_def Let_def)
  next
    case (Inr tms)
    have "length tms = nat ?n"
      using Inr collect_length [of _ tms]
      by (simp add: generate_time_index_def py_range_def)
    then have "rows (foldl (sim_step cfg)
          \<lparr>rows = [], y_prev = base_kwh_when_closed cfg, rng = Random gen (seed cfg)\<rparr> tms) =
        rows (foldl (sim_step cfg)
          \<lparr>rows = [], y_prev = base_kwh_when_closed cfg, rng = Random gen' (seed cfg)\<rparr> tms)"
      using agree by (intro foldl_sim_step_agree) (simp_all add: Random_def)
    then show ?thesis using Inr by (simp add: simulate_def simulate_run_def Let_def)
  qed
  then show ?thesis by simp
qed

text \<open>
  The default configuration with its seed written out, and a one-step run under two
  sources that agree on the first two variates of seed 123 and nowhere else.
\<close>

theorem simulate_deterministic_witness:
  "simulate (const_gen 0) SimConfig_default None =
     simulate (const_gen 0) (SimConfig_default\<lparr>seed := 123\<rparr>) None \<and>
   simulate (const_gen 0) (SimConfig_default\<lparr>n_days := 1, freq_minutes := 1440\<rparr>) None =
     simulate (\<lambda>s k. if s = 123 \<and> k < 2 then 0 else 1)
       (SimConfig_default\<lparr>n_days := 1, freq_minutes := 1440\<rparr>) None"
proof -
  let ?cfg = "SimConfig_default\<lparr>n_days := 1, freq_minutes := 1440\<rparr>"
  let ?gen = "\<lambda>s k. if s = (123 :: int) \<and> k < (2 :: nat) then 0 else (1 :: real)"
  have e: "SimConfig_default = SimConfig_default\<lparr>seed := 123\<rparr>"
    by (simp add: SimConfig_default_def)
  have n: "2 * nat (n_days ?cfg * int_truediv (24 * 60) (freq_minutes ?cfg)) = 2"
    by (simp add: int_truediv_def)
  have a: "\<forall>k < 2 * nat (n_days ?cfg * int_truediv (24 * 60) (freq_minutes ?cfg)).
          const_gen 0 (seed ?cfg) k = ?gen (seed ?cfg) k"
    unfolding n by (simp add: const_gen_def SimConfig_default_def)
  have "simulate (const_gen 0) SimConfig_default None =
     simulate (const_gen 0) (SimConfig_default\<lparr>seed := 123\<rparr>) None"
    using simulate_deterministic [where ?cfg1.0 = SimConfig_default
        and ?cfg2.0 = "SimConfig_default\<lparr>seed := 123\<rparr>" and ?start1.0 = None
        and ?start2.0 = None and gen = "const_gen 0"] e
    by blast
  moreover have "simulate (const_gen 0) ?cfg None = simulate ?gen ?cfg None"
    using simulate_deterministic [where gen = "const_gen 0" and gen' = ?gen and cfg = ?cfg
        and start = None] a
    by blast
  ultimately show ?thesis by simp
qed

subsection \<open>Grid size and timestamps\<close>

text \<open>
  Claim C5, as amended. Let the configuration have \<open>n_days \<ge> 0\<close> and a positive
  \<open>freq_minutes\<close> that divides 1440, let \<open>s\<close> be the start (2025-01-01T00:00:00 when
  none is given), a valid datetime, and let the last grid point, \<open>s\<close> plus
  \<open>n_days * (1440 / freq_minutes) - 1\<close> steps of \<open>freq_minutes\<close> minutes, lie before the
  end of the year 9999. Then \<open>simulate\<close> returns, without raising, exactly
  \<open>n_days * (1440 / freq_minutes)\<close> records; their timestamps are the ISO renderings of
  the points of the time index, in order; and the time index starts at \<open>s\<close>, has
  consecutive points exactly \<open>freq_minutes\<close> minutes (\<open>freq_minutes * 60000000\<close>
  microseconds) apart, and is strictly increasing.
\<close>

theorem simulate_time_grid:
  assumes "0 \<le> n_days cfg" and "0 < freq_minutes cfg" and "freq_minutes cfg dvd 1440"
    and "s = (case start of None \<Rightarrow> mk_datetime 2025 1 1 0 0 0 | Some t \<Rightarrow> t)"
    and "valid_datetime s"
    and "us_of s + freq_minutes cfg * 60000000 * (n_days cfg * (1440 div freq_minutes cfg) - 1)
           < (MAXORDINAL + 1) * US_PER_DAY"
  shows "\<exists>tms rs.
           generate_time_index s (n_days cfg * (1440 div freq_minutes cfg)) (freq_minutes cfg) =
             Inr tms \<and>
           simulate gen cfg start = Inr rs \<and>
           int (length rs) = n_days cfg * (1440 div freq_minutes cfg) \<and>
           map (\<lambda>r. map_of r ''timestamp'') rs = map (\<lambda>t. Some (Str (isoformat t))) tms \<and>
           (tms \<noteq> [] \<longrightarrow> hd tms = s) \<and>
           (\<forall>i. Suc i < length tms \<longrightarrow>
                us_of (tms ! Suc i) = us_of (tms ! i) + freq_minutes cfg * 60000000) \<and>
           sorted_wrt (\<lambda>a b. us_of a < us_of b) tms"
proof -
  define n where "n = n_days cfg * (1440 div freq_minutes cfg)"
  define tms where "tms = spec_time_grid s n (freq_minutes cfg)"
  define st where "st = foldl (sim_step cfg)
     \<lparr>rows = [], y_prev = base_kwh_when_closed cfg, rng = Random gen (seed cfg)\<rparr> tms"
  have n0: "0 \<le> n"
    using assms(1,2) by (simp add: n_def pos_imp_zdiv_nonneg_iff)
  have run: "generate_time_index s n (freq_minutes cfg) = Inr tms"
    "simulate_run gen cfg start = Inr st"
    using simulate_run_ok [OF assms(2,3,4,5,6), of gen] by (simp_all add: n_def tms_def st_def)
  have all2: "list_all2 record_of_step tms (rows st)"
    using foldl_sim_step_rows [of cfg
      "\<lparr>rows = [], y_prev = base_kwh_when_closed cfg, rng = Random gen (seed cfg)\<rparr>" tms]
    by (auto simp add: st_def)
  have len: "length tms = nat n" by (simp add: tms_def spec_time_grid_length)
  have "simulate gen cfg start = Inr (rows st)" using run(2) by (simp add: simulate_def)
  moreover have "int (length (rows st)) = n"
    using all2 len n0 by (simp add: list_all2_lengthD [symmetric])
  moreover have "map (\<lambda>r. map_of r ''timestamp'') (rows st) =
      map (\<lambda>t. Some (Str (isoformat t))) tms"
    using all2 by (rule record_of_step_timestamps)
  moreover have "tms \<noteq> [] \<longrightarrow> hd tms = s"
  proof
    assume "tms \<noteq> []"
    then have "0 < length tms" by simp
    then have "0 < nat n" using len by simp
    then have "tms ! 0 = DT (us_of s + freq_minutes cfg * 60000000 * int 0)"
      unfolding tms_def by (rule spec_time_grid_nth)
    with \<open>tms \<noteq> []\<close> show "hd tms = s" by (simp add: hd_conv_nth)
  qed
  moreover have "\<forall>i. Suc i < length tms \<longrightarrow>
      us_of (tms ! Suc i) = us_of (tms ! i) + freq_minutes cfg * 60000000"
    using len by (simp add: tms_def spec_time_grid_nth algebra_simps)
  moreover have "sorted_wrt (\<lambda>a b. us_of a < us_of b) tms"
    unfolding tms_def using assms(2) by (rule spec_time_grid_sorted)
  ultimately have "generate_time_index s n (freq_minutes cfg) = Inr tms \<and>
           simulate gen cfg start = Inr (rows st) \<and>
           int (length (rows st)) = n \<and>
           map (\<lambda>r. map_of r ''timestamp'') (rows st) = map (\<lambda>t. Some (Str (isoformat t))) tms \<and>
           (tms \<noteq> [] \<longrightarrow> hd tms = s) \<and>
           (\<forall>i. Suc i < length tms \<longrightarrow>
                us_of (tms ! Suc i) = us_of (tms ! i) + freq_minutes cfg * 60000000) \<and>
           sorted_wrt (\<lambda>a b. us_of a < us_of b) tms"
    using run(1) by simp
  then show ?thesis unfolding n_def by (intro exI)
qed

text \<open>
  The default configuration (60 days, hourly) from the default start gives 1440 records,
  the first one stamped 2025-01-01T00:00:00.
\<close>

theorem simulate_time_grid_witness:
  "\<exists>rs. simulate (const_gen 0) SimConfig_default None = Inr rs \<and> length rs = 1440 \<and>
        map_of (hd rs) ''timestamp'' = Some (Str ''2025-01-01T00:00:00'')"
proof -
  have c: "n_days SimConfig_default = 60" "freq_minutes SimConfig_default = 60"
    by (simp_all add: SimConfig_default_def)
  have h1: "0 \<le> n_days SimConfig_default" and h2: "0 < freq_minutes SimConfig_default"
    and h3: "freq_minutes SimConfig_default dvd 1440"
    by (simp_all add: c)
  have h4: "mk_datetime 2025 1 1 0 0 0 =
      (case None of None \<Rightarrow> mk_datetime 2025 1 1 0 0 0 | Some t \<Rightarrow> t)"
    by simp
  have h6: "us_of (mk_datetime 2025 1 1 0 0 0) +
        freq_minutes SimConfig_default * 60000000 *
          (n_days SimConfig_default * (1440 div freq_minutes SimConfig_default) - 1)
        < (MAXORDINAL + 1) * US_PER_DAY"
    by (simp add: c MAXORDINAL_def US_PER_DAY_def start_default_us)
  obtain tms rs where r:
    "simulate (const_gen 0) SimConfig_default None = Inr rs"
    "int (length rs) = n_days SimConfig_default * (1440 div freq_minutes SimConfig_default)"
    "map (\<lambda>r. map_of r ''timestamp'') rs = map (\<lambda>t. Some (Str (isoformat t))) tms"
    "tms \<noteq> [] \<longrightarrow> hd tms = mk_datetime 2025 1 1 0 0 0"
    using simulate_time_grid [OF h1 h2 h3 h4 start_default_valid h6, of "const_gen 0"]
    by blast
  have len: "length rs = 1440" using r(2) by (simp add: c)
  then have ne: "rs \<noteq> []" by auto
  have "length tms = length rs" using arg_cong [OF r(3), of length] by simp
  then have te: "tms \<noteq> []" using ne by auto
  have "map_of (hd rs) ''timestamp'' = hd (map (\<lambda>r. map_of r ''timestamp'') rs)"
    using ne by (simp add: hd_map)
  also have "\<dots> = Some (Str (isoformat (hd tms)))"
    using te by (simp add: r(3) hd_map)
  finally show ?thesis using r(1,4) te len start_default_iso by simp
qed

text \<open>
  Claim C5 as stated fails in two ways. With \<open>n_days = -1\<close> the run returns no record,
  where the claim promises \<open>-24\<close> of them, and likewise with \<open>freq_minutes = -60\<close>, which
  divides 1440 (\<open>-1440\<close> promised). From 9999-12-31T00:00:00 with two daily
  steps, the second grid point is past the last datetime and the run raises
  \<^verbatim>\<open>OverflowError\<close>.
\<close>

theorem simulate_time_grid_counterexample:
  "freq_minutes (SimConfig_default\<lparr>n_days := - 1\<rparr>) dvd 1440 \<and>
   n_days (SimConfig_default\<lparr>n_days := - 1\<rparr>) *
     (1440 div freq_minutes (SimConfig_default\<lparr>n_days := - 1\<rparr>)) = - 24 \<and>
   simulate (const_gen 0) (SimConfig_default\<lparr>n_days := - 1\<rparr>) None = Inr [] \<and>
   freq_minutes (SimConfig_default\<lparr>freq_minutes := - 60\<rparr>) dvd 1440 \<and>
   n_days (SimConfig_default\<lparr>freq_minutes := - 60\<rparr>) *
     (1440 div freq_minutes (SimConfig_default\<lparr>freq_minutes := - 60\<rparr>)) = - 1440 \<and>
   simulate (const_gen 0) (SimConfig_default\<lparr>freq_minutes := - 60\<rparr>) None = Inr [] \<and>
   freq_minutes (SimConfig_default\<lparr>n_days := 2, freq_minutes := 1440\<rparr>) dvd 1440 \<and>
   valid_datetime (mk_datetime 9999 12 31 0 0 0) \<and>
   simulate (const_gen 0) (SimConfig_default\<lparr>n_days := 2, freq_minutes := 1440\<rparr>)
     (Some (mk_datetime 9999 12 31 0 0 0)) = Inl OverflowError"
proof -
  have "simulate (const_gen 0) (SimConfig_default\<lparr>n_days := - 1\<rparr>) None = Inr []"
    by (simp add: SimConfig_default_def simulate_def simulate_run_def Let_def
        generate_time_index_def py_range_def int_truediv_def)
  moreover have "simulate (const_gen 0) (SimConfig_default\<lparr>freq_minutes := - 60\<rparr>) None = Inr []"
    by (simp add: SimConfig_default_def simulate_def simulate_run_def Let_def
        generate_time_index_def py_range_def int_truediv_def)
  moreover have "simulate (const_gen 0) (SimConfig_default\<lparr>n_days := 2, freq_minutes := 1440\<rparr>)
     (Some (mk_datetime 9999 12 31 0 0 0)) = Inl OverflowError"
    by (simp add: SimConfig_default_def simulate_def simulate_run_def Let_def grid_defs
        calendar_defs upt_0_2)
  moreover have "valid_datetime (mk_datetime 9999 12 31 0 0 0)"
    by (simp add: valid_datetime_def MAXORDINAL_def calendar_defs)
  ultimately show ?thesis by (simp add: SimConfig_default_def)
qed

subsection \<open>The inertia boundary\<close>

lemma sim_step_forgets_y_prev:
  "inertia_phi cfg = 0 \<Longrightarrow> sim_step cfg (st\<lparr>y_prev := y\<rparr>) ts = sim_step cfg st ts"
  by (simp add: sim_step_def Let_def split: prod.split)

text \<open>
  Claim C4, as amended. The energy of a step is floored at 0. With \<open>inertia_phi = 1\<close>
  the output energy of every step is the larger of 0 and the previous output (the
  closed-state baseline at the first step) plus that step's noise draw: the baseline
  target has zero weight. With \<open>inertia_phi = 0\<close> it is the larger of 0 and the
  deterministic baseline target plus the noise, and the step does not depend on the
  previous output at all. The record stores the output rounded to four decimals.
\<close>

theorem inertia_boundary:
  "(inertia_phi cfg = 1 \<longrightarrow>
      y_prev (sim_step cfg st ts) = max 0 (y_prev st + step_noise cfg st ts)) \<and>
   (inertia_phi cfg = 0 \<longrightarrow>
      y_prev (sim_step cfg st ts) =
        max 0 (spec_baseline_target cfg ts (step_occupancy cfg st ts) + step_noise cfg st ts) \<and>
      sim_step cfg (st\<lparr>y_prev := y\<rparr>) ts = sim_step cfg st ts) \<and>
   field (last (rows (sim_step cfg st ts))) ''Y_kwh'' =
     Some (py_round (y_prev (sim_step cfg st ts)) 4)"
  using sim_step_y [of cfg st ts] sim_step_forgets_y_prev [where cfg = cfg and st = st and y = y and ts = ts]
    sim_step_last_fields [of cfg st ts]
  by simp

lemma second_day_closed: "simulate_open_regime (DT 63871459200000000) = 0"
  by (simp add: simulate_open_regime_def weekday_def frac_hour_def hour_def
      minute_def toordinal_def US_PER_DAY_def)

lemma two_step_run_state:
  assumes "s = (case start of None \<Rightarrow> mk_datetime 2025 1 1 0 0 0 | Some t \<Rightarrow> t)"
    and "valid_datetime s" and "valid_datetime (DT (us_of s + 86400000000))"
    and "n_days cfg = 2" and "freq_minutes cfg = 1440"
  shows "simulate_run gen cfg start =
     Inr (sim_step cfg
           (sim_step cfg \<lparr>rows = [], y_prev = base_kwh_when_closed cfg,
                            rng = Random gen (seed cfg)\<rparr> s)
           (DT (us_of s + 86400000000)))"
proof -
  have "us_of s + 86400000000 < (MAXORDINAL + 1) * US_PER_DAY"
    using assms(3) by (simp add: valid_datetime_iff MAXORDINAL_def US_PER_DAY_def)
  then have "simulate_run gen cfg start =
           Inr (foldl (sim_step cfg)
                  \<lparr>rows = [], y_prev = base_kwh_when_closed cfg, rng = Random gen (seed cfg)\<rparr>
                  (spec_time_grid s (n_days cfg * (1440 div freq_minutes cfg)) (freq_minutes cfg)))"
    using simulate_run_ok [of cfg s start gen] assms by simp
  moreover have "spec_time_grid s 2 1440 = [s, DT (us_of s + 86400000000)]"
    by (simp add: spec_time_grid_def py_range_def upt_0_2)
  ultimately show ?thesis using assms(4,5) by simp
qed

lemma closed_step_occupancy:
  "simulate_open_regime ts = 0 \<Longrightarrow> step_occupancy cfg st ts = 0"
  by (simp add: step_occupancy_def simulate_occupancy_def)

lemma closed_step_noise:
  "simulate_open_regime ts = 0 \<Longrightarrow>
     step_noise cfg st ts = stream (rng st) (pos (rng st)) * noise_sigma cfg"
  by (simp add: step_noise_draw)


text \<open>
  Claim C4 as stated fails where the floor at 0 applies. Every variate is \<open>-4\<close>, so
  every noise draw is \<open>-4 * 2.5 = -10\<close>; the steps are at midnight (closed) of
  2025-01-01 (\<open>DT 63871372800000000\<close>) and 2025-01-02 (\<open>DT 63871459200000000\<close>).
  With \<open>inertia_phi = 1\<close> the first output is 0 and the second output is 0, not
  \<open>0 + (-10)\<close>. With \<open>inertia_phi = 0\<close> (and the two temperature coefficients 0) the
  baseline target is 8.8 and the output is 0, not \<open>8.8 + (-10)\<close>.
\<close>

theorem inertia_boundary_counterexample:
  "mk_datetime 2025 1 1 0 0 0 = DT 63871372800000000 \<and>
   inertia_phi (SimConfig_default\<lparr>inertia_phi := 1, n_days := 2, freq_minutes := 1440\<rparr>) = 1 \<and>
   simulate_run (const_gen (- 4))
       (SimConfig_default\<lparr>inertia_phi := 1, n_days := 2, freq_minutes := 1440\<rparr>) None =
     Inr (sim_step (SimConfig_default\<lparr>inertia_phi := 1, n_days := 2, freq_minutes := 1440\<rparr>)
           (sim_step (SimConfig_default\<lparr>inertia_phi := 1, n_days := 2, freq_minutes := 1440\<rparr>)
              \<lparr>rows = [], y_prev = 8, rng = Random (const_gen (- 4)) 123\<rparr>
              (DT 63871372800000000))
           (DT 63871459200000000)) \<and>
   y_prev (sim_step (SimConfig_default\<lparr>inertia_phi := 1, n_days := 2, freq_minutes := 1440\<rparr>)
              \<lparr>rows = [], y_prev = 8, rng = Random (const_gen (- 4)) 123\<rparr>
              (DT 63871372800000000)) = 0 \<and>
   step_noise (SimConfig_default\<lparr>inertia_phi := 1, n_days := 2, freq_minutes := 1440\<rparr>)
     (sim_step (SimConfig_default\<lparr>inertia_phi := 1, n_days := 2, freq_minutes := 1440\<rparr>)
              \<lparr>rows = [], y_prev = 8, rng = Random (const_gen (- 4)) 123\<rparr>
              (DT 63871372800000000))
     (DT 63871459200000000) = - 10 \<and>
   y_prev (sim_step (SimConfig_default\<lparr>inertia_phi := 1, n_days := 2, freq_minutes := 1440\<rparr>)
           (sim_step (SimConfig_default\<lparr>inertia_phi := 1, n_days := 2, freq_minutes := 1440\<rparr>)
              \<lparr>rows = [], y_prev = 8, rng = Random (const_gen (- 4)) 123\<rparr>
              (DT 63871372800000000))
           (DT 63871459200000000)) = 0 \<and>
   inertia_phi (SimConfig_default\<lparr>inertia_phi := 0, temp_to_activation := 0,
                  direct_temp_to_kwh := 0\<rparr>) = 0 \<and>
   spec_baseline_target
     (SimConfig_default\<lparr>inertia_phi := 0, temp_to_activation := 0, direct_temp_to_kwh := 0\<rparr>)
     (DT 63871372800000000)
     (step_occupancy
        (SimConfig_default\<lparr>inertia_phi := 0, temp_to_activation := 0, direct_temp_to_kwh := 0\<rparr>)
        \<lparr>rows = [], y_prev = 8, rng = Random (const_gen (- 4)) 123\<rparr> (DT 63871372800000000)) =
     8.8 \<and>
   step_noise
     (SimConfig_default\<lparr>inertia_phi := 0, temp_to_activation := 0, direct_temp_to_kwh := 0\<rparr>)
     \<lparr>rows = [], y_prev = 8, rng = Random (const_gen (- 4)) 123\<rparr> (DT 63871372800000000) = - 10 \<and>
   y_prev (sim_step
     (SimConfig_default\<lparr>inertia_phi := 0, temp_to_activation := 0, direct_temp_to_kwh := 0\<rparr>)
     \<lparr>rows = [], y_prev = 8, rng = Random (const_gen (- 4)) 123\<rparr> (DT 63871372800000000)) = 0"
proof -
  let ?A = "SimConfig_default\<lparr>inertia_phi := 1, n_days := 2, freq_minutes := 1440\<rparr>"
  let ?B = "SimConfig_default\<lparr>inertia_phi := 0, temp_to_activation := 0,
                  direct_temp_to_kwh := 0\<rparr>"
  let ?I = "\<lparr>rows = [], y_prev = 8, rng = Random (const_gen (- 4)) 123\<rparr>"
  let ?t = "DT 63871372800000000"
  let ?u = "DT 63871459200000000"
  have closed: "simulate_open_regime ?t = 0"
    using start_default_closed by (simp add: start_default_us)
  have v: "valid_datetime ?t" "valid_datetime ?u"
    by (simp_all add: valid_datetime_iff)
  have A: "inertia_phi ?A = 1" "noise_sigma ?A = 2.5" "base_kwh_when_closed ?A = 8" "seed ?A = 123"
    "n_days ?A = 2" "freq_minutes ?A = 1440"
    by (simp_all add: SimConfig_default_def)
  have run: "simulate_run (const_gen (- 4)) ?A None = Inr (sim_step ?A (sim_step ?A ?I ?t) ?u)"
    using two_step_run_state [of ?t None ?A "const_gen (- 4)"] v A
    by (simp add: start_default_us)
  have n1: "step_noise ?A ?I ?t = - 10"
    using closed by (simp add: closed_step_noise A Random_def const_gen_def)
  have y1: "y_prev (sim_step ?A ?I ?t) = 0"
    by (simp add: sim_step_y A n1)
  have n2: "step_noise ?A (sim_step ?A ?I ?t) ?u = - 10"
    using second_day_closed by (simp add: closed_step_noise A sim_step_rng Random_def const_gen_def)
  have y2: "y_prev (sim_step ?A (sim_step ?A ?I ?t) ?u) = 0"
    by (simp add: sim_step_y [of ?A "sim_step ?A ?I ?t" ?u] A n2 y1)
  have B: "inertia_phi ?B = 0" "noise_sigma ?B = 2.5"
    by (simp_all add: SimConfig_default_def)
  have o: "step_occupancy ?B ?I ?t = 0"
    using closed by (rule closed_step_occupancy)
  have tb: "spec_baseline_target ?B ?t 0 = 8.8"
    using closed by (simp add: spec_baseline_target_def SimConfig_default_def clamp_def)
  have nb: "step_noise ?B ?I ?t = - 10"
    using closed by (simp add: closed_step_noise B Random_def const_gen_def)
  have yb: "y_prev (sim_step ?B ?I ?t) = 0"
    by (simp add: sim_step_y [of ?B ?I ?t] B o tb nb)
  show ?thesis
    using A(1) run y1 n2 y2 B(1) o tb nb yb start_default_us by simp
qed

text \<open>
  With every variate 1 the noise is 2.5: from a previous output of 8 the full-memory
  step gives 10.5; the memoryless step gives the same state from 100 as from 8.
\<close>

theorem inertia_boundary_witness:
  "inertia_phi (SimConfig_default\<lparr>inertia_phi := 1\<rparr>) = 1 \<and>
   y_prev (sim_step (SimConfig_default\<lparr>inertia_phi := 1\<rparr>)
             \<lparr>rows = [], y_prev = 8, rng = Random (const_gen 1) 123\<rparr>
             (mk_datetime 2025 1 1 0 0 0)) = 10.5 \<and>
   inertia_phi (SimConfig_default\<lparr>inertia_phi := 0\<rparr>) = 0 \<and>
   sim_step (SimConfig_default\<lparr>inertia_phi := 0\<rparr>)
     \<lparr>rows = [], y_prev = 100, rng = Random (const_gen 1) 123\<rparr> (mk_datetime 2025 1 1 0 0 0) =
   sim_step (SimConfig_default\<lparr>inertia_phi := 0\<rparr>)
     \<lparr>rows = [], y_prev = 8, rng = Random (const_gen 1) 123\<rparr> (mk_datetime 2025 1 1 0 0 0)"
proof -
  let ?A = "SimConfig_default\<lparr>inertia_phi := 1\<rparr>"
  let ?B = "SimConfig_default\<lparr>inertia_phi := 0\<rparr>"
  let ?I = "\<lparr>rows = [], y_prev = 8, rng = Random (const_gen 1) 123\<rparr>"
  let ?t = "mk_datetime 2025 1 1 0 0 0"
  have A: "inertia_phi ?A = 1" "noise_sigma ?A = 2.5"
    and B: "inertia_phi ?B = 0"
    by (simp_all add: SimConfig_default_def)
  have n: "step_noise ?A ?I ?t = 2.5"
    using start_default_closed by (simp add: closed_step_noise A Random_def const_gen_def)
  have "y_prev (sim_step ?A ?I ?t) = 10.5"
    using inertia_boundary [of ?A ?I ?t] A n by simp
  moreover have "sim_step ?B (?I\<lparr>y_prev := 100\<rparr>) ?t = sim_step ?B ?I ?t"
    using inertia_boundary [where cfg = ?B and st = ?I and ts = ?t and y = 100] B by blast
  ultimately show ?thesis using A(1) B by simp
qed

subsection \<open>Zero occupancy while open\<close>

text \<open>
  Claim C10. On Wednesday 2025-01-01 at 09:00 the regime is open; with a random source
  whose next standard normal variate is \<open>-10\<close> (a noise of \<open>-80\<close>) and the default
  academic intensity, \<open>simulate_occupancy\<close> returns exactly 0: the negative sum is
  clamped up to the lower bound. The one-step run from that start emits a record with
  \<open>X1_occupancy = 0\<close> and \<open>X3_open = 1\<close>, so a zero occupancy in a record does not
  imply a closed regime.
\<close>

theorem occupancy_zero_when_open:
  "simulate_open_regime (mk_datetime 2025 1 1 9 0 0) = 1 \<and>
   fst (simulate_occupancy (mk_datetime 2025 1 1 9 0 0) 1 (academic_intensity SimConfig_default)
          (Random (const_gen (- 10)) (seed SimConfig_default))) = 0 \<and>
   (\<exists>r. simulate (const_gen (- 10)) (SimConfig_default\<lparr>n_days := 1, freq_minutes := 1440\<rparr>)
           (Some (mk_datetime 2025 1 1 9 0 0)) = Inr [r] \<and>
        field r ''X1_occupancy'' = Some 0 \<and> field r ''X3_open'' = Some 1)"
proof -
  let ?cfg = "SimConfig_default\<lparr>n_days := 1, freq_minutes := 1440\<rparr>"
  let ?init = "\<lparr>rows = [], y_prev = base_kwh_when_closed ?cfg,
                rng = Random (const_gen (- 10)) (seed ?cfg)\<rparr>"
  let ?t = "mk_datetime 2025 1 1 9 0 0"
  have occ: "fst (simulate_occupancy ?t 1 (academic_intensity SimConfig_default)
          (Random (const_gen (- 10)) (seed SimConfig_default))) = 0"
    using nine_oclock_occupancy [of "Random (const_gen (- 10)) (seed SimConfig_default)"]
    by (simp add: Random_def const_gen_def SimConfig_default_def)
  have run: "simulate_run (const_gen (- 10)) ?cfg (Some ?t) = Inr (sim_step ?cfg ?init ?t)"
    using nine_oclock_valid by (intro one_step_run_state) simp_all
  obtain r where r: "rows (sim_step ?cfg ?init ?t) = [r]"
    using sim_step_rows [of ?cfg ?init ?t] by auto
  have so: "step_occupancy ?cfg ?init ?t = 0"
    using occ by (simp add: step_occupancy_def nine_oclock_open SimConfig_default_def)
  have "field (last (rows (sim_step ?cfg ?init ?t))) ''X1_occupancy'' =
          Some (py_round (step_occupancy ?cfg ?init ?t) 3)"
    and "field (last (rows (sim_step ?cfg ?init ?t))) ''X3_open'' =
          Some (of_int (simulate_open_regime ?t))"
    using sim_step_last_fields [of ?cfg ?init ?t] by blast+
  then have "field r ''X1_occupancy'' = Some 0" and "field r ''X3_open'' = Some 1"
    unfolding r so nine_oclock_open by (simp_all add: py_round_zero)
  then have "\<exists>r. simulate (const_gen (- 10)) ?cfg (Some ?t) = Inr [r] \<and>
        field r ''X1_occupancy'' = Some 0 \<and> field r ''X3_open'' = Some 1"
    using run r by (simp add: simulate_def)
  then show ?thesis using nine_oclock_open occ by simp
qed

subsection \<open>The outdoor temperature\<close>

lemma new_year_yday: "toordinal ts = 739252 \<Longrightarrow> tm_yday ts = 1"
  by (simp add: tm_yday_def year_def month_def day_def start_default_ymd
      days_before_month_def DAYS_BEFORE_MONTH_def)

lemma new_year_hours:
  "mk_datetime 2025 1 1 5 0 0 = DT 63871390800000000"
  "mk_datetime 2025 1 1 11 0 0 = DT 63871412400000000"
  "mk_datetime 2025 1 1 15 0 0 = DT 63871426800000000"
  "mk_datetime 2025 1 1 23 0 0 = DT 63871455600000000"
  by (simp_all add: mk_datetime_def ymd2ord_def days_before_year_def days_before_month_def
      DAYS_BEFORE_MONTH_def US_PER_DAY_def)

lemma new_year_temp:
  assumes "toordinal (DT u) = 739252" and "(u div 3600000000) mod 24 = h"
    and "(u div 60000000) mod 60 = 0"
  shows "simulate_outdoor_temp (DT u) 9.0 3.5 =
           8 + 9 * sin (2 * pi / 365) + 3.5 * sin (2 * pi * ((of_int h - 5) / 24))"
  using assms new_year_yday [OF assms(1)]
  by (simp add: simulate_outdoor_temp_def Let_def frac_hour_def hour_def minute_def)

lemma sin_five_sixths: "sin (5 * pi / 6) = 1 / 2"
proof -
  have "sin (pi - pi / 6) = sin (pi / 6)" by (rule sin_pi_minus)
  moreover have "pi - pi / 6 = 5 * pi / 6" by simp
  ultimately show ?thesis by (simp add: sin_30)
qed

lemma sin_three_halves: "sin (3 * pi / 2) = - 1"
proof -
  have e: "3 * pi / 2 = pi + pi / 2" by simp
  show ?thesis unfolding e sin_add by simp
qed

text \<open>
  Claim C7. The temperature is the baseline 8.0 plus a seasonal sinusoid of amplitude
  9.0 in day-of-year / 365 plus a daily sinusoid of amplitude 3.5 and period 24 hours in
  the hour shifted by 5. The daily term stays within 3.5 of zero at every timestamp. On
  2025-01-01 (day 1 of the year) it is 0 at 05:00, \<open>-3.5\<close> (its least value) at 23:00,
  \<open>+3.5\<close> (its greatest value) at 11:00 and 1.75 at 15:00: the trough of the code is at
  23:00 and its peak at 11:00, not at 05:00 and 15:00.
\<close>

theorem outdoor_temp_daily_cycle:
  "simulate_outdoor_temp ts 9.0 3.5 =
     8.0 + 9.0 * sin (2 * pi * (of_int (tm_yday ts) / 365)) +
     3.5 * sin (2 * pi * ((frac_hour ts - 5) / 24)) \<and>
   8.0 + 9.0 * sin (2 * pi * (of_int (tm_yday ts) / 365)) - 3.5 \<le> simulate_outdoor_temp ts 9.0 3.5 \<and>
   simulate_outdoor_temp ts 9.0 3.5 \<le> 8.0 + 9.0 * sin (2 * pi * (of_int (tm_yday ts) / 365)) + 3.5 \<and>
   simulate_outdoor_temp (mk_datetime 2025 1 1 5 0 0) 9.0 3.5 = 8 + 9 * sin (2 * pi / 365) \<and>
   simulate_outdoor_temp (mk_datetime 2025 1 1 23 0 0) 9.0 3.5 = 8 + 9 * sin (2 * pi / 365) - 3.5 \<and>
   simulate_outdoor_temp (mk_datetime 2025 1 1 11 0 0) 9.0 3.5 = 8 + 9 * sin (2 * pi / 365) + 3.5 \<and>
   simulate_outdoor_temp (mk_datetime 2025 1 1 15 0 0) 9.0 3.5 = 8 + 9 * sin (2 * pi / 365) + 1.75"
proof -
  have f: "simulate_outdoor_temp ts 9.0 3.5 =
     8.0 + 9.0 * sin (2 * pi * (of_int (tm_yday ts) / 365)) +
     3.5 * sin (2 * pi * ((frac_hour ts - 5) / 24))"
    by (simp add: simulate_outdoor_temp_def Let_def)
  have lo: "- 1 \<le> sin (2 * pi * ((frac_hour ts - 5) / 24))"
    and hi: "sin (2 * pi * ((frac_hour ts - 5) / 24)) \<le> 1"
    by simp_all
  have b: "8.0 + 9.0 * sin (2 * pi * (of_int (tm_yday ts) / 365)) - 3.5 \<le> simulate_outdoor_temp ts 9.0 3.5"
    "simulate_outdoor_temp ts 9.0 3.5 \<le> 8.0 + 9.0 * sin (2 * pi * (of_int (tm_yday ts) / 365)) + 3.5"
    unfolding f using lo hi by linarith+
  have t5: "simulate_outdoor_temp (mk_datetime 2025 1 1 5 0 0) 9.0 3.5 = 8 + 9 * sin (2 * pi / 365)"
    unfolding new_year_hours
    by (subst new_year_temp [where h = 5]) (simp_all add: toordinal_def US_PER_DAY_def)
  have t23: "simulate_outdoor_temp (mk_datetime 2025 1 1 23 0 0) 9.0 3.5 = 8 + 9 * sin (2 * pi / 365) - 3.5"
    unfolding new_year_hours
    by (subst new_year_temp [where h = 23]) (simp_all add: toordinal_def US_PER_DAY_def sin_three_halves)
  have t11: "simulate_outdoor_temp (mk_datetime 2025 1 1 11 0 0) 9.0 3.5 = 8 + 9 * sin (2 * pi / 365) + 3.5"
    unfolding new_year_hours
    by (subst new_year_temp [where h = 11]) (simp_all add: toordinal_def US_PER_DAY_def)
  have t15: "simulate_outdoor_temp (mk_datetime 2025 1 1 15 0 0) 9.0 3.5 = 8 + 9 * sin (2 * pi / 365) + 1.75"
    unfolding new_year_hours
    by (subst new_year_temp [where h = 15]) (simp_all add: toordinal_def US_PER_DAY_def sin_five_sixths)
  show ?thesis using f b t5 t23 t11 t15 by blast
qed

subsection \<open>The header of the output file\<close>

lemma dict_to_list_fields:
  "map fst r = fieldnames \<Longrightarrow>
     dict_to_list fieldnames r =
       Inr (map (\<lambda>key. case map_of r key of Some v \<Rightarrow> v | None \<Rightarrow> Str []) fieldnames)"
  by (auto simp add: dict_to_list_def filter_empty_conv)

lemma dirname_example: "dirname ''data/sim.csv'' = ''data''"
  by (simp add: dirname_def rstrip_sep_def)

lemma header_of_nonempty_write:
  assumes "row_list \<noteq> []" and "write_csv row_list out_path fs = Inr fs'"
  shows "\<exists>body. files fs' out_path = Some (map Str (map fst (hd row_list)) # body) \<and>
                length body = length row_list"
proof -
  obtain fs1 body where
    b: "collect (map (dict_to_list (map fst (hd row_list))) row_list) = Inr body"
    and f: "fs' = fs1\<lparr>files := (files fs1)(out_path \<mapsto> map Str (map fst (hd row_list)) # body)\<rparr>"
    using assms by (auto simp add: write_csv_def Let_def split: sum.splits)
  have "length body = length row_list" using collect_length [OF b] by simp
  then show ?thesis using f by simp
qed

lemma write_csv_simulated:
  assumes "simulate gen cfg start = Inr rs" and "dirname out_path \<noteq> []"
  shows "\<exists>body. write_csv rs out_path fs =
           Inr (fs\<lparr>dirs := insert (dirname out_path) (dirs fs),
                   files := (files fs)(out_path \<mapsto>
                      map Str (if rs \<noteq> [] then FIELD_NAMES else []) # body)\<rparr>) \<and>
         length body = length rs"
proof -
  obtain st where st: "simulate_run gen cfg start = Inr st" "rs = rows st"
    using assms(1) by (auto simp add: simulate_def split: sum.splits)
  obtain tms where all2: "list_all2 record_of_step tms rs"
    using simulate_run_rows [OF st(1)] st(2) by blast
  have keys: "\<And>r. r \<in> set rs \<Longrightarrow> map fst r = FIELD_NAMES"
    using all2 by (auto simp add: list_all2_conv_all_nth in_set_conv_nth record_of_step_def)
  define names where "names = (if rs \<noteq> [] then map fst (hd rs) else [])"
  have n: "names = (if rs \<noteq> [] then FIELD_NAMES else [])"
    using keys [of "hd rs"] by (simp add: names_def)
  have "\<And>r. r \<in> set rs \<Longrightarrow> dict_to_list names r =
      Inr (map (\<lambda>key. case map_of r key of Some v \<Rightarrow> v | None \<Rightarrow> Str []) names)"
  proof -
    fix r assume r: "r \<in> set rs"
    then have "rs \<noteq> []" by auto
    then have "map fst r = names" using keys [OF r] n by simp
    then show "dict_to_list names r =
      Inr (map (\<lambda>key. case map_of r key of Some v \<Rightarrow> v | None \<Rightarrow> Str []) names)"
      by (rule dict_to_list_fields)
  qed
  then have "collect (map (dict_to_list names) rs) =
      Inr (map (\<lambda>r. map (\<lambda>key. case map_of r key of Some v \<Rightarrow> v | None \<Rightarrow> Str []) names) rs)"
    by (rule collect_map_Inr)
  then have "write_csv rs out_path fs =
           Inr (fs\<lparr>dirs := insert (dirname out_path) (dirs fs),
                   files := (files fs)(out_path \<mapsto>
                      map Str (if rs \<noteq> [] then FIELD_NAMES else []) #
                      map (\<lambda>r. map (\<lambda>key. case map_of r key of Some v \<Rightarrow> v | None \<Rightarrow> Str [])
                                 names) rs)\<rparr>)"
    using assms(2) n unfolding names_def
    by (simp add: write_csv_def makedirs_def Let_def)
  then show ?thesis
    by (intro exI [of _ "map (\<lambda>r. map (\<lambda>key. case map_of r key of Some v \<Rightarrow> v
                                          | None \<Rightarrow> Str []) names) rs"]) simp
qed

lemma write_csv_empty:
  "write_csv [] out_path fs =
     (if dirname out_path = [] then Inl FileNotFoundError
      else Inr (fs\<lparr>dirs := insert (dirname out_path) (dirs fs),
                   files := (files fs)(out_path \<mapsto> [[]])\<rparr>))"
  by (simp add: write_csv_def makedirs_def)

text \<open>
  Claim C6, as amended. Given a non-empty record sequence, a write that succeeds leaves
  a file whose first row is the field names of the first record, in their order,
  followed by one row per record; for the non-empty output of \<open>simulate\<close> and a path
  with a directory part the write succeeds and the header is the nine names of
  \<open>FIELD_NAMES\<close>. Given zero records the write does not fail for that reason: it writes
  a file whose only row is an empty header (it fails only when the path has no directory
  part, as it does for any record sequence).
\<close>

theorem write_csv_header:
  "(row_list \<noteq> [] \<and> write_csv row_list out_path fs = Inr fs' \<longrightarrow>
      (\<exists>body. files fs' out_path = Some (map Str (map fst (hd row_list)) # body) \<and>
              length body = length row_list)) \<and>
   (simulate gen cfg start = Inr rs \<and> rs \<noteq> [] \<and> dirname out_path \<noteq> [] \<longrightarrow>
      (\<exists>body. write_csv rs out_path fs =
           Inr (fs\<lparr>dirs := insert (dirname out_path) (dirs fs),
                   files := (files fs)(out_path \<mapsto> map Str FIELD_NAMES # body)\<rparr>) \<and>
         length body = length rs)) \<and>
   write_csv [] out_path fs =
     (if dirname out_path = [] then Inl FileNotFoundError
      else Inr (fs\<lparr>dirs := insert (dirname out_path) (dirs fs),
                   files := (files fs)(out_path \<mapsto> [[]])\<rparr>))"
proof -
  have "simulate gen cfg start = Inr rs \<and> rs \<noteq> [] \<and> dirname out_path \<noteq> [] \<longrightarrow>
      (\<exists>body. write_csv rs out_path fs =
           Inr (fs\<lparr>dirs := insert (dirname out_path) (dirs fs),
                   files := (files fs)(out_path \<mapsto> map Str FIELD_NAMES # body)\<rparr>) \<and>
         length body = length rs)"
    using write_csv_simulated [of gen cfg start rs out_path fs] by auto
  then show ?thesis
    using header_of_nonempty_write [of row_list out_path fs fs'] write_csv_empty [of out_path fs]
    by blast
qed

text \<open>
  Claim C6 as stated fails on its second half: writing zero records to
  \<^verbatim>\<open>data/sim.csv\<close> succeeds and leaves a file with one empty row.
\<close>

theorem write_csv_header_counterexample:
  "\<not> isl (write_csv [] ''data/sim.csv'' \<lparr>dirs = {}, files = Map.empty\<rparr>) \<and>
   files (projr (write_csv [] ''data/sim.csv'' \<lparr>dirs = {}, files = Map.empty\<rparr>)) ''data/sim.csv'' =
     Some [[]]"
  by (simp add: write_csv_empty dirname_example)

text \<open>The record of a one-step run, written to \<^verbatim>\<open>data/sim.csv\<close>.\<close>

theorem write_csv_header_witness:
  "\<exists>r body.
     simulate (const_gen 0) (SimConfig_default\<lparr>n_days := 1, freq_minutes := 1440\<rparr>) None = Inr [r] \<and>
     [r] \<noteq> [] \<and> dirname ''data/sim.csv'' \<noteq> [] \<and>
     write_csv [r] ''data/sim.csv'' \<lparr>dirs = {}, files = Map.empty\<rparr> =
       Inr \<lparr>dirs = {''data''}, files = [''data/sim.csv'' \<mapsto> map Str FIELD_NAMES # body]\<rparr> \<and>
     length body = 1"
proof -
  obtain r where r:
    "simulate (const_gen 0) (SimConfig_default\<lparr>n_days := 1, freq_minutes := 1440\<rparr>) None = Inr [r]"
    using one_step_run by blast
  have d: "dirname ''data/sim.csv'' \<noteq> []" by (simp add: dirname_example)
  obtain body where
    "write_csv [r] ''data/sim.csv'' \<lparr>dirs = {}, files = Map.empty\<rparr> =
       Inr (\<lparr>dirs = {}, files = Map.empty\<rparr>\<lparr>dirs := insert (dirname ''data/sim.csv'') (dirs \<lparr>dirs = {}, files = Map.empty\<rparr>),
                   files := (files \<lparr>dirs = {}, files = Map.empty\<rparr>)(''data/sim.csv'' \<mapsto> map Str FIELD_NAMES # body)\<rparr>)"
    "length body = length [r]"
    using write_csv_header [where gen = "const_gen 0"
        and cfg = "SimConfig_default\<lparr>n_days := 1, freq_minutes := 1440\<rparr>" and start = None
        and rs = "[r]" and out_path = "''data/sim.csv''" and fs = "\<lparr>dirs = {}, files = Map.empty\<rparr>"]
      r d by blast
  then have "write_csv [r] ''data/sim.csv'' \<lparr>dirs = {}, files = Map.empty\<rparr> =
       Inr \<lparr>dirs = {''data''}, files = [''data/sim.csv'' \<mapsto> map Str FIELD_NAMES # body]\<rparr> \<and>
     length body = 1"
    by (simp add: dirname_example)
  then show ?thesis using r d by blast
qed

end
